theory Spec2Isabelle
  imports Complex_Main "HOL-Library.AList"
begin

section \<open>Conventions of the embedding\<close>

text \<open>
  The program is Python over an SQLite store and a broker API. Python ints are modelled as
  \<^typ>\<open>int\<close>, UTC instants as seconds since the epoch, tables as lists of rows in insertion
  order, and an optional value (\<open>None\<close>, SQL \<open>NULL\<close>) as an \<^typ>\<open>'a option\<close>. Exceptions are
  values of \<open>py_error\<close> on the left of a sum. A Python float is a finite IEEE 754 double,
  a \<^typ>\<open>real\<close>. Where a float result is floored or compared with a threshold (the sizer, the
  age and the bounce test of a signal) a real argument stands for the double nearest to it,
  as a decimal literal does in Python, and products and quotients are rounded as the machine
  rounds them, by \<open>double\<close>, \<open>fmul\<close> and \<open>fdiv\<close> below; elsewhere the arithmetic is exact.
\<close>

type_synonym datetime = real

datatype py_error = ZeroDivisionError | ValueError string | TypeError | IntegrityError | BrokerError

text \<open>Python truthiness of an optional float: \<open>None\<close> and \<open>0.0\<close> are both false.\<close>

definition truthy :: "real option \<Rightarrow> bool" where
  "truthy x = (case x of None \<Rightarrow> False | Some v \<Rightarrow> v \<noteq> 0)"

section \<open>Double-precision arithmetic\<close>

text \<open>
  Round to nearest, ties to even, onto the binary64 grid: 53 significant bits, and the fixed
  grid of the subnormals below \<open>2^-1022\<close>. \<open>binade x\<close> is the exponent \<open>e\<close> with
  \<open>2^e \<le> |x| < 2^(e+1)\<close>, found in at most 2200 halvings or doublings, which covers every
  product and quotient of two doubles. A result beyond \<open>max_double\<close> is an infinity on the
  machine; the model follows finite results only, and \<open>finite_double\<close> says a result is one.
\<close>

definition pow2 :: "int \<Rightarrow> real" where
  "pow2 e = (if 0 \<le> e then 2 ^ nat e else 1 / 2 ^ nat (- e))"

fun ilog2 :: "nat \<Rightarrow> real \<Rightarrow> int" where
  "ilog2 0 x = 0"
| "ilog2 (Suc n) x =
     (if 2 \<le> x then ilog2 n (x / 2) + 1
      else if x < 1 then ilog2 n (2 * x) - 1
      else 0)"

definition binade :: "real \<Rightarrow> int" where
  "binade x = ilog2 2200 \<bar>x\<bar>"

definition quantum :: "real \<Rightarrow> real" where
  "quantum x = pow2 (max (binade x) (- 1022) - 52)"

definition round_half_even :: "real \<Rightarrow> int" where
  "round_half_even y =
     (let f = \<lfloor>y\<rfloor>; frac = y - of_int f
      in if frac < 1 / 2 then f
         else if frac > 1 / 2 then f + 1
         else if even f then f else f + 1)"

text \<open>The double nearest to a real: what a literal denotes and what an operation returns.\<close>

definition double :: "real \<Rightarrow> real" where
  "double x = (if x = 0 then 0 else of_int (round_half_even (x / quantum x)) * quantum x)"

definition fmul :: "real \<Rightarrow> real \<Rightarrow> real" where
  "fmul a b = double (a * b)"

definition fdiv :: "real \<Rightarrow> real \<Rightarrow> real" where
  "fdiv a b = double (a / b)"

definition max_double :: real where
  "max_double = (2 ^ 53 - 1) * 2 ^ 971"

definition finite_double :: "real \<Rightarrow> bool" where
  "finite_double x = (\<bar>x\<bar> \<le> max_double)"

section \<open>Position sizer (core/risk/sizer.py)\<close>

record PositionSizer =
  total_capital :: real
  max_per_trade :: real
  risk_per_trade_pct :: real

text \<open>The dictionary returned by \<open>calculate_shares\<close> (the formatted \<open>reason\<close> text is left out).\<close>

record sizing =
  shares :: int
  notional_value :: real
  base_allocation :: real
  confidence_multiplier :: real
  volatility_multiplier :: real
  final_allocation :: real

text \<open>
  The branch on \<open>atr / price\<close>; a missing or zero ATR, or a price not above zero, gives 1.0.
  Both arguments are floats.
\<close>

definition volatility_of :: "real option \<Rightarrow> real \<Rightarrow> real" where
  "volatility_of atr price =
     (case atr of
        None \<Rightarrow> 1
      | Some a \<Rightarrow>
          if truthy (Some (double a)) \<and> double price > 0 then
            (let atr_pct = fdiv (double a) (double price) in
               if atr_pct > double 0.05 then 0.5
               else if atr_pct < double 0.01 then double 1.2
               else 1)
          else 1)"

text \<open>
  \<open>calculate_shares\<close>, statement by statement; the price, the confidence, the capital and
  the per-trade maximum are floats, \<open>math.floor\<close> gives the integer.
\<close>

definition calculate_shares ::
  "PositionSizer \<Rightarrow> real \<Rightarrow> real \<Rightarrow> real option \<Rightarrow> real option \<Rightarrow> sizing" where
  "calculate_shares self price confidence_score atr available_capital =
     (let available =
            double (case available_capital of None \<Rightarrow> total_capital self | Some c \<Rightarrow> c);
          base = min (double (max_per_trade self)) (fmul available (double 0.2));
          cm = fdiv (double confidence_score) 100;
          confidence_allocation = fmul base cm;
          vm = volatility_of atr price;
          fa = min (fmul confidence_allocation vm) (double (max_per_trade self));
          sh = (if double price > 0 then \<lfloor>fdiv fa (double price)\<rfloor> else 0)
      in \<lparr> shares = sh,
           notional_value =
             (if double price > 0 then fmul (double (of_int sh)) (double price) else 0),
           base_allocation = base, confidence_multiplier = cm,
           volatility_multiplier = vm, final_allocation = fa \<rparr>)"

text \<open>
  The run of \<open>calculate_shares\<close> stays within the finite doubles: no product or quotient
  it forms overflows.
\<close>

definition no_overflow :: "PositionSizer \<Rightarrow> real \<Rightarrow> real \<Rightarrow> real option \<Rightarrow> real option \<Rightarrow> bool" where
  "no_overflow self price confidence_score atr available_capital =
     (let available =
            double (case available_capital of None \<Rightarrow> total_capital self | Some c \<Rightarrow> c);
          sz = calculate_shares self price confidence_score atr available_capital
      in finite_double available \<and> finite_double (double price) \<and>
         finite_double (double confidence_score) \<and> finite_double (double (max_per_trade self)) \<and>
         finite_double (fmul available (double 0.2)) \<and>
         finite_double (confidence_multiplier sz) \<and>
         finite_double (fmul (base_allocation sz) (confidence_multiplier sz)) \<and>
         finite_double (fmul (fmul (base_allocation sz) (confidence_multiplier sz))
                          (volatility_multiplier sz)) \<and>
         finite_double (case atr of None \<Rightarrow> 0 | Some a \<Rightarrow> double a) \<and>
         finite_double (case atr of None \<Rightarrow> 0 | Some a \<Rightarrow> fdiv (double a) (double price)) \<and>
         finite_double (fdiv (final_allocation sz) (double price)) \<and>
         finite_double (notional_value sz))"

definition calculate_risk_amount :: "real \<Rightarrow> real \<Rightarrow> int \<Rightarrow> real" where
  "calculate_risk_amount entry_price stop_loss n =
     (if n \<le> 0 then 0 else \<bar>entry_price - stop_loss\<bar> * of_int n)"

text \<open>
  \<open>validate_risk\<close> divides by \<open>total_capital\<close> before any check, so a zero capital raises.
  Only the verdict is kept of the returned pair; the message is formatted text.
\<close>

definition validate_risk :: "PositionSizer \<Rightarrow> real \<Rightarrow> real \<Rightarrow> int \<Rightarrow> real \<Rightarrow> py_error + bool" where
  "validate_risk self entry_price stop_loss n capital =
     (let risk_amount = calculate_risk_amount entry_price stop_loss n in
      if capital = 0 then Inl ZeroDivisionError
      else
        (let risk_pct = risk_amount / capital in
         if risk_pct > risk_per_trade_pct self * 2 then Inr False
         else if risk_amount > capital * 0.05 then Inr False
         else Inr True))"

text \<open>
  The sizing rule as the specification words it (section 4.5), in the machine's arithmetic,
  for comparison.
\<close>

definition spec_vol_mult :: "real option \<Rightarrow> real \<Rightarrow> real" where
  "spec_vol_mult atr price =
     (case atr of
        None \<Rightarrow> 1
      | Some a \<Rightarrow>
          if fdiv (double a) (double price) > double 0.05 then 0.5
          else if fdiv (double a) (double price) < double 0.01 then double 1.2
          else 1)"

definition spec_shares :: "real \<Rightarrow> real \<Rightarrow> real \<Rightarrow> real option \<Rightarrow> real \<Rightarrow> int" where
  "spec_shares mpt price confidence atr available =
     \<lfloor>fdiv (min (fmul (fmul (min (double mpt) (fmul (double available) (double 0.2)))
                             (fdiv (double confidence) 100))
                       (spec_vol_mult atr price)) (double mpt)) (double price)\<rfloor>"

text \<open>The same rule with an absent or zero ATR giving the multiplier 1.\<close>

definition amended_vol_mult :: "real option \<Rightarrow> real \<Rightarrow> real" where
  "amended_vol_mult atr price =
     (case atr of
        None \<Rightarrow> 1
      | Some a \<Rightarrow>
          if double a = 0 then 1
          else if fdiv (double a) (double price) > double 0.05 then 0.5
          else if fdiv (double a) (double price) < double 0.01 then double 1.2
          else 1)"

definition settings_sizer :: PositionSizer where
  "settings_sizer = \<lparr> total_capital = 10000, max_per_trade = 2000, risk_per_trade_pct = 0.01 \<rparr>"


section \<open>The store (scripts/init_db.py)\<close>

text \<open>
  The status columns are \<open>TEXT\<close>; the datatypes list the values the program writes or
  tests. \<open>COOLDOWN\<close> is the status of the placeholder rows \<open>set_cooldown\<close> inserts.
\<close>

datatype signal_status = KIV | CONFIRMED | EXECUTED | EXPIRED | REJECTED | COOLDOWN

datatype position_status = OPEN | CLOSING | CLOSED

record signal =
  signal_id :: string
  s_ticker :: string
  s_strategy :: string
  trigger_time :: datetime
  trigger_price :: "real option"
  rebound_bottom :: "real option"
  go_in_price :: "real option"
  profit_target :: "real option"
  s_stop_loss :: "real option"
  confidence_score :: "real option"
  s_status :: signal_status
  cooldown_until :: "datetime option"

text \<open>
  A row of \<open>positions\<close> with the columns of the table that the program reads and writes;
  the reconciler's insert leaves \<open>current_price\<close> and \<open>exit_signal\<close> \<open>NULL\<close>.
\<close>

record position =
  ticket_id :: string
  p_ticker :: string
  entry_time :: "datetime option"
  entry_price :: real
  quantity :: real
  current_price :: "real option"
  p_status :: position_status
  p_strategy :: string
  exit_signal :: "string option"

datatype win_loss = WIN | LOSS

record trade =
  exit_time :: datetime
  t_ticker :: string
  t_strategy :: string
  t_entry_price :: real
  exit_price :: real
  t_quantity :: real
  pnl_percent :: real
  t_win_loss :: win_loss
  exit_reason :: string
  t_ticket_id :: string

record ignore_entry =
  i_ticker :: string
  reason_code :: string
  scope :: string
  ttl_utc :: datetime
  backoff_level :: nat
  retry_count :: nat

text \<open>A row of \<open>health_state\<close>: when, and the state text; the free-text reason is left out.\<close>

record health_row =
  h_timestamp :: datetime
  h_state :: string

datatype side = BUY | SELL

record eq_row =
  eq_ticket_id :: string
  eq_ticker :: string
  eq_timestamp :: datetime
  eq_expected_price :: real
  eq_actual_price :: real
  price_slippage :: real
  price_slippage_pct :: real
  eq_expected_quantity :: real
  eq_actual_quantity :: real
  fill_ratio :: real
  partial_fill :: bool
  eq_order_type :: string
  eq_side :: side

record db =
  ignore_list :: "ignore_entry list"
  signals :: "signal list"
  positions :: "position list"
  trade_history :: "trade list"
  health_state :: "health_row list"
  execution_quality :: "eq_row list"

definition empty_db :: db where
  "empty_db = \<lparr> ignore_list = [], signals = [], positions = [], trade_history = [],
                 health_state = [], execution_quality = [] \<rparr>"

section \<open>Ignore list (core/risk/ignore.py)\<close>


section \<open>Daily limits (core/risk/limits.py)\<close>


definition is_active :: "position \<Rightarrow> bool" where
  "is_active p = (p_status p = OPEN \<or> p_status p = CLOSING)"






section \<open>Cooldowns (core/signal/cooldown.py)\<close>

text \<open>
  \<open>is_on_cooldown\<close> returns \<open>(True, until)\<close> with the latest expiry still in the future, or
  \<open>(False, None)\<close>; the model returns the expiry, or \<open>None\<close>.
\<close>

definition cooldown_of :: "datetime \<Rightarrow> string \<Rightarrow> string \<Rightarrow> signal \<Rightarrow> datetime option" where
  "cooldown_of now ticker strategy r =
     (if s_ticker r = ticker \<and> s_strategy r = strategy then
        (case cooldown_until r of
           None \<Rightarrow> None
         | Some u \<Rightarrow> if u > now then Some u else None)
      else None)"

definition is_on_cooldown :: "db \<Rightarrow> datetime \<Rightarrow> string \<Rightarrow> string \<Rightarrow> datetime option" where
  "is_on_cooldown d now ticker strategy =
     (case List.map_filter (cooldown_of now ticker strategy) (signals d) of
        [] \<Rightarrow> None
      | u # us \<Rightarrow> Some (fold max us u))"

text \<open>
  \<open>set_cooldown\<close>: the duration in seconds by reason, an update of every row of the pair (or
  of the current hourly id), and a placeholder row when no row was updated. \<open>bucket\<close> and
  \<open>stamp\<close> are the clock's renderings \<open>strftime('%Y%m%d%H')\<close> and \<open>timestamp()\<close>.
\<close>

definition cooldown_duration :: "real \<Rightarrow> string \<Rightarrow> int option \<Rightarrow> real" where
  "cooldown_duration default_cooldown why minutes =
     (case minutes of
        Some m \<Rightarrow> if m \<noteq> 0 then of_int m * 60 else
          (if why = ''STOP_LOSS'' then default_cooldown
           else if why = ''TAKE_PROFIT'' then 30 * 60
           else if why = ''REJECTED'' then 15 * 60
           else default_cooldown)
      | None \<Rightarrow>
          (if why = ''STOP_LOSS'' then default_cooldown
           else if why = ''TAKE_PROFIT'' then 30 * 60
           else if why = ''REJECTED'' then 15 * 60
           else default_cooldown))"

definition set_cooldown ::
  "db \<Rightarrow> datetime \<Rightarrow> string \<Rightarrow> string \<Rightarrow> string \<Rightarrow> string \<Rightarrow> string \<Rightarrow> int option \<Rightarrow> db" where
  "set_cooldown d now bucket stamp ticker strategy why minutes =
     (let until = now + cooldown_duration (60 * 60) why minutes;
          sid = ticker @ ''_'' @ strategy @ ''_'' @ bucket;
          hit = (\<lambda>r. signal_id r = sid \<or> (s_ticker r = ticker \<and> s_strategy r = strategy));
          updated = map (\<lambda>r. if hit r then r\<lparr>cooldown_until := Some until\<rparr> else r) (signals d)
      in if filter hit (signals d) = [] then
           d\<lparr>signals := updated @
              [\<lparr> signal_id = ''cooldown_'' @ ticker @ ''_'' @ strategy @ ''_'' @ stamp,
                 s_ticker = ticker, s_strategy = strategy, trigger_time = now,
                 trigger_price = None, rebound_bottom = None, go_in_price = None,
                 profit_target = None, s_stop_loss = None, confidence_score = None,
                 s_status = COOLDOWN, cooldown_until = Some until \<rparr>]\<rparr>
         else d\<lparr>signals := updated\<rparr>)"

section \<open>Risk manager (core/risk/manager.py)\<close>









section \<open>Signal processor (core/signal/processor.py)\<close>

record SignalProcessor =
  kiv_timeout_hours :: real
  confirmed_timeout_hours :: real

definition default_processor :: SignalProcessor where
  "default_processor = \<lparr> kiv_timeout_hours = 4, confirmed_timeout_hours = 2 \<rparr>"

text \<open>\<open>_generate_signal_id\<close>; \<open>bucket\<close> is the clock's \<open>strftime('%Y%m%d%H')\<close>.\<close>

definition generate_signal_id :: "string \<Rightarrow> string \<Rightarrow> string \<Rightarrow> string" where
  "generate_signal_id bucket ticker strategy = ticker @ ''_'' @ strategy @ ''_'' @ bucket"

text \<open>\<open>UPDATE signals SET status = ? WHERE signal_id = ?\<close>, and the number of rows it touches.\<close>

definition update_status :: "db \<Rightarrow> string \<Rightarrow> signal_status \<Rightarrow> db" where
  "update_status d sid st =
     d\<lparr>signals := map (\<lambda>r. if signal_id r = sid then r\<lparr>s_status := st\<rparr> else r) (signals d)\<rparr>"

definition rowcount :: "db \<Rightarrow> string \<Rightarrow> nat" where
  "rowcount d sid = length (filter (\<lambda>r. signal_id r = sid) (signals d))"

datatype kiv_result =
    KIV_REJECTED datetime
  | KIV_EXISTS signal_status
  | KIV_ADDED string real

definition kiv_duplicate :: "string \<Rightarrow> string \<Rightarrow> string \<Rightarrow> signal \<Rightarrow> bool" where
  "kiv_duplicate sid ticker strategy r =
     (signal_id r = sid \<or>
      (s_ticker r = ticker \<and> s_strategy r = strategy \<and>
       (s_status r = KIV \<or> s_status r = CONFIRMED)))"

text \<open>
  \<open>add_to_kiv\<close>. The score of \<open>confidence.calculate\<close> is the argument \<open>confidence\<close>; the
  prices are stored as given.
\<close>

definition add_to_kiv ::
  "db \<Rightarrow> datetime \<Rightarrow> string \<Rightarrow> string \<Rightarrow> string \<Rightarrow> real \<Rightarrow> real \<Rightarrow> real \<Rightarrow> real \<Rightarrow> real \<Rightarrow> real
     \<Rightarrow> kiv_result \<times> db" where
  "add_to_kiv d now bucket ticker strategy trig_price rebound go_in target stop confidence =
     (case is_on_cooldown d now ticker strategy of
        Some until \<Rightarrow> (KIV_REJECTED until, d)
      | None \<Rightarrow>
          (let sid = generate_signal_id bucket ticker strategy in
           case filter (kiv_duplicate sid ticker strategy) (signals d) of
             existing # _ \<Rightarrow> (KIV_EXISTS (s_status existing), d)
           | [] \<Rightarrow>
               (KIV_ADDED sid confidence,
                d\<lparr>signals := signals d @
                   [\<lparr> signal_id = sid, s_ticker = ticker, s_strategy = strategy,
                      trigger_time = now, trigger_price = Some trig_price,
                      rebound_bottom = Some rebound, go_in_price = Some go_in,
                      profit_target = Some target, s_stop_loss = Some stop,
                      confidence_score = Some confidence, s_status = KIV,
                      cooldown_until = None \<rparr>]\<rparr>)))"

text \<open>The KIV rows of a pair, and the first row of \<open>ORDER BY trigger_time DESC\<close>.\<close>

definition kiv_rows :: "db \<Rightarrow> string \<Rightarrow> string \<Rightarrow> signal list" where
  "kiv_rows d ticker strategy =
     filter (\<lambda>r. s_ticker r = ticker \<and> s_strategy r = strategy \<and> s_status r = KIV) (signals d)"

fun newest :: "signal list \<Rightarrow> signal option" where
  "newest [] = None"
| "newest (r # rs) =
     (case newest rs of
        None \<Rightarrow> Some r
      | Some r' \<Rightarrow> if trigger_time r' > trigger_time r then Some r' else Some r)"

datatype confirmation =
    Not_confirmed string
  | Confirmed string "real option" "real option" "real option" "real option"

text \<open>
  \<open>age_hours\<close>: \<open>total_seconds()\<close> is the difference of the instants as a double, divided
  by 3600; the bounce threshold is the double product \<open>rebound_bottom * 1.01\<close>, where the
  price and the \<open>REAL\<close> column \<open>rebound_bottom\<close> are floats.
\<close>

definition age_hours :: "datetime \<Rightarrow> datetime \<Rightarrow> real" where
  "age_hours now trigger = fdiv (double (now - trigger)) 3600"

definition check_confirmation ::
  "SignalProcessor \<Rightarrow> db \<Rightarrow> datetime \<Rightarrow> string \<Rightarrow> string \<Rightarrow> real \<Rightarrow> confirmation \<times> db" where
  "check_confirmation self d now ticker strategy price =
     (case newest (kiv_rows d ticker strategy) of
        None \<Rightarrow> (Not_confirmed ''NO_KIV_SIGNAL'', d)
      | Some row \<Rightarrow>
          if age_hours now (trigger_time row) > kiv_timeout_hours self
          then (Not_confirmed ''EXPIRED'', update_status d (signal_id row) EXPIRED)
          else
            (case rebound_bottom row of
               None \<Rightarrow> (Not_confirmed ''NOT_CONFIRMED'', d)
             | Some rb \<Rightarrow>
                 if double rb \<noteq> 0 \<and> double rb > 0 \<and>
                    double price \<ge> fmul (double rb) (double 1.01)
                 then (Confirmed (signal_id row) (go_in_price row) (profit_target row)
                         (s_stop_loss row) (confidence_score row),
                       update_status d (signal_id row) CONFIRMED)
                 else (Not_confirmed ''NOT_CONFIRMED'', d)))"

text \<open>\<open>mark_executed\<close> and \<open>reject_signal\<close>; the ticket and the reason are only logged.\<close>

definition mark_executed :: "db \<Rightarrow> string \<Rightarrow> string \<Rightarrow> db \<times> bool" where
  "mark_executed d sid ticket = (update_status d sid EXECUTED, rowcount d sid > 0)"

definition reject_signal :: "db \<Rightarrow> string \<Rightarrow> string \<Rightarrow> db \<times> bool" where
  "reject_signal d sid why = (update_status d sid REJECTED, rowcount d sid > 0)"

section \<open>Executor (core/execution/executor.py, core/execution/slippage.py)\<close>

datatype order_request =
    MarketOrderRequest string real side
  | LimitOrderRequest string real real side

record order =
  o_id :: string
  filled_at :: "datetime option"
  filled_avg_price :: "real option"
  filled_qty :: real
  canceled_at :: "datetime option"
  rejected_at :: "datetime option"

text \<open>
  What the program cannot decide is a parameter: the broker's answers (\<open>Inl\<close> when the
  client raises), the positions it lists, and the random ticket ids.
\<close>

record alpaca_position =
  a_symbol :: string
  a_qty :: real
  avg_entry_price :: real
  a_current_price :: real
  unrealized_pl :: real

record world =
  submit_order :: "order_request \<Rightarrow> py_error + order"
  get_order_by_id :: "string \<Rightarrow> py_error + order"
  get_all_positions :: "py_error + alpaca_position list"
  new_ticket :: "nat \<Rightarrow> string"

record pending_info =
  pi_ticket_id :: string
  pi_ticker :: string
  pi_expected_price :: real
  pi_quantity :: real
  pi_order_type :: string
  pi_reason :: "string option"
  submitted_at :: datetime

text \<open>
  The executor's memory: the pending map (a dictionary, in insertion order), the number of
  ticket ids drawn, and a log of the requests handed to \<open>client.submit_order\<close>.
\<close>

record executor =
  pending_orders :: "(string \<times> pending_info) list"
  tickets_drawn :: nat
  submitted :: "order_request list"

record state =
  store :: db
  exec :: executor

definition record_execution ::
  "db \<Rightarrow> datetime \<Rightarrow> string \<Rightarrow> string \<Rightarrow> real \<Rightarrow> real \<Rightarrow> real \<Rightarrow> real \<Rightarrow> string \<Rightarrow> side \<Rightarrow> db" where
  "record_execution d now ticket ticker expected actual expected_qty actual_qty otype sd =
     (let slip = actual - expected;
          slip_pct = (if expected \<noteq> 0 then slip / expected * 100 else 0);
          ratio = (if expected_qty \<noteq> 0 then actual_qty / expected_qty else 0);
          row = \<lparr> eq_ticket_id = ticket, eq_ticker = ticker, eq_timestamp = now,
                  eq_expected_price = expected, eq_actual_price = actual,
                  price_slippage = slip, price_slippage_pct = slip_pct,
                  eq_expected_quantity = expected_qty, eq_actual_quantity = actual_qty,
                  fill_ratio = ratio, partial_fill = (ratio < 0.99),
                  eq_order_type = otype, eq_side = sd \<rparr>
      in d\<lparr>execution_quality :=
             filter (\<lambda>r. eq_ticket_id r \<noteq> ticket) (execution_quality d) @ [row]\<rparr>)"

text \<open>\<open>str.upper\<close> on ASCII text, and Python's \<open>round(x, 2)\<close> (ties to even).\<close>

definition upper_char :: "char \<Rightarrow> char" where
  "upper_char c =
     (case map_of (zip ''abcdefghijklmnopqrstuvwxyz'' ''ABCDEFGHIJKLMNOPQRSTUVWXYZ'') c of
        None \<Rightarrow> c
      | Some u \<Rightarrow> u)"

definition upper :: "string \<Rightarrow> string" where
  "upper s = map upper_char s"

definition round2 :: "real \<Rightarrow> real" where
  "round2 x =
     (let y = x * 100; f = \<lfloor>y\<rfloor>; frac = y - of_int f
      in of_int (if frac < 1 / 2 then f
                 else if frac > 1 / 2 then f + 1
                 else if even f then f else f + 1) / 100)"

datatype exec_result =
    FILLED string string real
  | PENDING string string
  | FAILED string py_error

definition is_filled :: "exec_result \<Rightarrow> bool" where
  "is_filled r = (case r of FILLED _ _ _ \<Rightarrow> True | _ \<Rightarrow> False)"

text \<open>
  \<open>execute_exit\<close>. Every exception inside the \<open>try\<close> ends in the FAILED result; the request is
  logged before the broker answers. A fill without an average price makes
  \<open>float(None)\<close> raise in the limit branch.
\<close>

definition execute_exit ::
  "world \<Rightarrow> datetime \<Rightarrow> state \<Rightarrow> string \<Rightarrow> real \<Rightarrow> string \<Rightarrow> real option \<Rightarrow> string
     \<Rightarrow> exec_result \<times> state" where
  "execute_exit w now st ticker qty order_type limit_price why =
     (let ticket = new_ticket w (tickets_drawn (exec st));
          st1 = st\<lparr>exec := (exec st)\<lparr>tickets_drawn := tickets_drawn (exec st) + 1\<rparr>\<rparr>
      in
      if upper order_type = ''MARKET'' \<or> why = ''STOP_LOSS'' then
        (let req = MarketOrderRequest ticker qty SELL;
             st2 = st1\<lparr>exec := (exec st1)\<lparr>submitted := submitted (exec st1) @ [req]\<rparr>\<rparr>
         in case submit_order w req of
              Inl e \<Rightarrow> (FAILED ticket e, st2)
            | Inr ord \<Rightarrow>
                (let fill_price = (case filled_avg_price ord of None \<Rightarrow> 0 | Some p \<Rightarrow> p);
                     expected = (if truthy limit_price then
                                   (case limit_price of Some lp \<Rightarrow> lp | None \<Rightarrow> fill_price)
                                 else fill_price)
                 in (FILLED ticket (o_id ord) fill_price,
                     st2\<lparr>store := record_execution (store st2) now ticket ticker expected
                                     fill_price qty qty order_type SELL\<rparr>)))
      else
        (case limit_price of
           None \<Rightarrow> (FAILED ticket (ValueError ''Limit price required for LIMIT exit''), st1)
         | Some lp \<Rightarrow>
             if lp = 0
             then (FAILED ticket (ValueError ''Limit price required for LIMIT exit''), st1)
             else
               (let req = LimitOrderRequest ticker (round2 lp) qty SELL;
                    st2 = st1\<lparr>exec := (exec st1)\<lparr>submitted := submitted (exec st1) @ [req]\<rparr>\<rparr>
                in case submit_order w req of
                     Inl e \<Rightarrow> (FAILED ticket e, st2)
                   | Inr ord \<Rightarrow>
                       (case filled_at ord of
                          Some _ \<Rightarrow>
                            (case filled_avg_price ord of
                               None \<Rightarrow> (FAILED ticket TypeError, st2)
                             | Some fill_price \<Rightarrow>
                                 (FILLED ticket (o_id ord) fill_price,
                                  st2\<lparr>store := record_execution (store st2) now ticket ticker lp
                                                  fill_price qty qty order_type SELL\<rparr>))
                        | None \<Rightarrow>
                            (PENDING ticket (o_id ord),
                             st2\<lparr>exec := (exec st2)\<lparr>pending_orders :=
                                    AList.update (o_id ord)
                                      \<lparr> pi_ticket_id = ticket, pi_ticker = ticker,
                                        pi_expected_price = lp, pi_quantity = qty,
                                        pi_order_type = ''LIMIT_EXIT'', pi_reason = Some why,
                                        submitted_at = now \<rparr>
                                      (pending_orders (exec st2))\<rparr>\<rparr>)))))"

section \<open>Sentinel (core/market/sentinel.py)\<close>

datatype check_status = Check_OK | Check_WARNING | Check_CRITICAL | Check_ERROR

datatype health = GREEN | YELLOW | RED

text \<open>The thresholds \<open>__init__\<close> assigns; no method changes them.\<close>

definition max_api_calls_per_min :: real where
  "max_api_calls_per_min = 180"

definition max_data_errors_per_day :: real where
  "max_data_errors_per_day = 10"

definition max_consecutive_failures :: nat where
  "max_consecutive_failures = 3"

record Sentinel =
  consecutive_failures :: nat
  api_calls_this_minute :: nat
  minute_start :: datetime
  kill_switch_engaged :: bool
  kill_reason :: string

text \<open>
  What one health check reads from its collaborators: the count of today's ERROR and
  CRITICAL rows of \<open>error_log\<close>, the answer of \<open>reconciler.quick_check\<close> (\<open>Inl\<close> when it
  raises) and the regime \<open>regime.detect_regime\<close> reports.
\<close>

record readings =
  r_errors_today :: nat
  r_quick_check :: "py_error + bool"
  r_regime :: string

text \<open>The \<open>checks\<close> dictionary, with the entries the roll-up reads.\<close>

record checks =
  api_usage_pct :: real
  api_usage_status :: check_status
  errors_today :: nat
  data_quality_status :: check_status
  reconciliation_status :: check_status
  market_conditions_status :: check_status
  kill_switch_status :: check_status
  c_consecutive_failures :: nat

text \<open>\<open>timedelta.seconds\<close>: the seconds within the day of a normalised difference.\<close>

definition timedelta_seconds :: "real \<Rightarrow> int" where
  "timedelta_seconds delta = \<lfloor>delta\<rfloor> mod 86400"

definition check_api_usage :: "Sentinel \<Rightarrow> datetime \<Rightarrow> (real \<times> check_status) \<times> Sentinel" where
  "check_api_usage self now =
     (let self1 = (if timedelta_seconds (now - minute_start self) > 60
                   then self\<lparr>api_calls_this_minute := 0, minute_start := now\<rparr>
                   else self);
          usage_pct = real (api_calls_this_minute self1) / max_api_calls_per_min * 100;
          status = (if usage_pct > 90 then Check_CRITICAL
                    else if usage_pct > 75 then Check_WARNING
                    else Check_OK)
      in ((usage_pct, status), self1))"

definition check_data_quality :: "readings \<Rightarrow> nat \<times> check_status" where
  "check_data_quality obs =
     (let n = r_errors_today obs;
          status = (if real n > max_data_errors_per_day then Check_CRITICAL
                    else if real n > max_data_errors_per_day * 0.7 then Check_WARNING
                    else Check_OK)
      in (n, status))"

definition check_reconciliation :: "Sentinel \<Rightarrow> readings \<Rightarrow> check_status \<times> Sentinel" where
  "check_reconciliation self obs =
     (case r_quick_check obs of
        Inr ok \<Rightarrow>
          if ok then (Check_OK, self)
          else (Check_CRITICAL, self\<lparr>consecutive_failures := consecutive_failures self + 1\<rparr>)
      | Inl e \<Rightarrow> (Check_ERROR, self\<lparr>consecutive_failures := consecutive_failures self + 1\<rparr>))"

definition check_market_conditions :: "readings \<Rightarrow> check_status" where
  "check_market_conditions obs =
     (if r_regime obs = ''CRASH'' then Check_CRITICAL
      else if r_regime obs = ''BEAR'' then Check_WARNING
      else Check_OK)"

definition check_kill_switch :: "Sentinel \<Rightarrow> check_status" where
  "check_kill_switch self = (if kill_switch_engaged self then Check_CRITICAL else Check_OK)"

text \<open>The dictionary's entries that are dictionaries themselves, by name, in its order.\<close>

definition named_checks :: "checks \<Rightarrow> (string \<times> check_status) list" where
  "named_checks c =
     [(''api_usage'', api_usage_status c), (''data_quality'', data_quality_status c),
      (''reconciliation'', reconciliation_status c),
      (''market_conditions'', market_conditions_status c),
      (''kill_switch'', kill_switch_status c)]"

datatype health_reason =
    Critical_issues "string list"
  | Consecutive_failures nat
  | Warnings "string list"
  | High_API_usage real
  | Elevated_errors nat
  | All_systems_nominal

definition determine_health_state :: "checks \<Rightarrow> health \<times> health_reason" where
  "determine_health_state c =
     (let critical = map fst (filter (\<lambda>(name, s). s = Check_CRITICAL) (named_checks c)) in
      if critical \<noteq> [] then (RED, Critical_issues critical)
      else if c_consecutive_failures c \<ge> max_consecutive_failures
      then (RED, Consecutive_failures (c_consecutive_failures c))
      else
        (let warnings = map fst (filter (\<lambda>(name, s). s = Check_WARNING) (named_checks c)) in
         if warnings \<noteq> [] then (YELLOW, Warnings warnings)
         else if api_usage_pct c > 70 then (YELLOW, High_API_usage (api_usage_pct c))
         else if real (errors_today c) > max_data_errors_per_day * 0.5
         then (YELLOW, Elevated_errors (errors_today c))
         else (GREEN, All_systems_nominal)))"

definition health_text :: "health \<Rightarrow> string" where
  "health_text h = (case h of GREEN \<Rightarrow> ''GREEN'' | YELLOW \<Rightarrow> ''YELLOW'' | RED \<Rightarrow> ''RED'')"

definition run_checks :: "Sentinel \<Rightarrow> readings \<Rightarrow> datetime \<Rightarrow> checks \<times> Sentinel" where
  "run_checks self obs now =
     (case check_api_usage self now of
        ((pct, api), self1) \<Rightarrow>
          (case check_data_quality obs of
             (n, dq) \<Rightarrow>
               (case check_reconciliation self1 obs of
                  (rc, self2) \<Rightarrow>
                    (\<lparr> api_usage_pct = pct, api_usage_status = api, errors_today = n,
                        data_quality_status = dq, reconciliation_status = rc,
                        market_conditions_status = check_market_conditions obs,
                        kill_switch_status = check_kill_switch self2,
                        c_consecutive_failures = consecutive_failures self2 \<rparr>,
                     self2))))"

text \<open>\<open>check_health\<close>: the checks, the roll-up, and the row appended to \<open>health_state\<close>.\<close>

definition check_health ::
  "Sentinel \<Rightarrow> readings \<Rightarrow> datetime \<Rightarrow> db
     \<Rightarrow> (health \<times> health_reason \<times> checks) \<times> Sentinel \<times> db" where
  "check_health self obs now d =
     (case run_checks self obs now of
        (c, self') \<Rightarrow>
          (case determine_health_state c of
             (st, why) \<Rightarrow>
               ((st, why, c), self',
                d\<lparr>health_state := health_state d @
                     [\<lparr> h_timestamp = now, h_state = health_text st \<rparr>]\<rparr>)))"

datatype trade_verdict =
    Kill_switch string
  | System_RED health_reason
  | Limited_trading health_reason
  | Normal_operations

definition should_trade ::
  "Sentinel \<Rightarrow> readings \<Rightarrow> datetime \<Rightarrow> db \<Rightarrow> (bool \<times> trade_verdict) \<times> Sentinel \<times> db" where
  "should_trade self obs now d =
     (case check_health self obs now d of
        ((st, why, c), self', d') \<Rightarrow>
          if kill_switch_engaged self' then ((False, Kill_switch (kill_reason self')), self', d')
          else if st = RED then ((False, System_RED why), self', d')
          else if st = YELLOW then ((True, Limited_trading why), self', d')
          else ((True, Normal_operations), self', d'))"

text \<open>
  The roll-up as section 4.10 of the specification words it: any critical check (the
  failure counter at its maximum is one) gives RED, else any warning YELLOW, else GREEN.
\<close>

definition spec_rollup :: "checks \<Rightarrow> health" where
  "spec_rollup c =
     (if filter (\<lambda>(name, s). s = Check_CRITICAL) (named_checks c) \<noteq> []
         \<or> c_consecutive_failures c \<ge> max_consecutive_failures then RED
      else if filter (\<lambda>(name, s). s = Check_WARNING) (named_checks c) \<noteq> [] then YELLOW
      else GREEN)"

section \<open>Exit monitor (core/execution/monitor.py)\<close>

text \<open>
  \<open>_mark_position_closed\<close>: the row of the ticket is archived to \<open>trade_history\<close> and
  deleted. The percentage divides by the entry price; an exception leaves the transaction
  uncommitted, so the store is as before.
\<close>

definition mark_position_closed ::
  "db \<Rightarrow> datetime \<Rightarrow> string \<Rightarrow> real \<Rightarrow> string \<Rightarrow> py_error + (db \<times> bool)" where
  "mark_position_closed d now ticket px why =
     (case filter (\<lambda>p. ticket_id p = ticket) (positions d) of
        [] \<Rightarrow> Inr (d, False)
      | pos # _ \<Rightarrow>
          if entry_price pos = 0 then Inl ZeroDivisionError
          else
            (let pnl_dollar = (px - entry_price pos) * quantity pos;
                 pnl_pct = (px - entry_price pos) / entry_price pos;
                 row = \<lparr> exit_time = now, t_ticker = p_ticker pos, t_strategy = p_strategy pos,
                         t_entry_price = entry_price pos, exit_price = px,
                         t_quantity = quantity pos, pnl_percent = pnl_pct,
                         t_win_loss = (if pnl_dollar > 0 then WIN else LOSS),
                         exit_reason = why, t_ticket_id = ticket \<rparr>
             in Inr (d\<lparr>trade_history := trade_history d @ [row],
                       positions := filter (\<lambda>p. ticket_id p \<noteq> ticket) (positions d)\<rparr>,
                     True)))"

text \<open>The entry a check appends to the list it returns.\<close>

record exit_event =
  ev_ticket_id :: string
  ev_ticker :: string
  ev_exit_price :: real
  ev_reason :: string

text \<open>
  After \<open>execute_exit\<close> answered: on FILLED the position is closed and the exit reported;
  any other answer reports nothing.
\<close>

definition close_if_filled ::
  "datetime \<Rightarrow> position \<Rightarrow> string \<Rightarrow> exec_result \<times> state
     \<Rightarrow> (py_error + exit_event option) \<times> state" where
  "close_if_filled now pos why answer =
     (case answer of
        (FILLED _ _ fill_price, st1) \<Rightarrow>
          (case mark_position_closed (store st1) now (ticket_id pos) fill_price why of
             Inl e \<Rightarrow> (Inl e, st1)
           | Inr (d', _) \<Rightarrow>
               (Inr (Some \<lparr> ev_ticket_id = ticket_id pos, ev_ticker = p_ticker pos,
                            ev_exit_price = fill_price, ev_reason = why \<rparr>),
                st1\<lparr>store := d'\<rparr>))
      | (_, st1) \<Rightarrow> (Inr None, st1))"

text \<open>
  The \<open>for pos in closing\<close> loop over the rows fetched beforehand; an exception ends it
  and the check.
\<close>

fun exit_loop ::
  "(position \<Rightarrow> state \<Rightarrow> (py_error + exit_event option) \<times> state) \<Rightarrow> position list \<Rightarrow> state
     \<Rightarrow> exit_event list \<Rightarrow> (py_error + exit_event list) \<times> state" where
  "exit_loop step [] st acc = (Inr acc, st)"
| "exit_loop step (p # ps) st acc =
     (case step p st of
        (Inl e, st') \<Rightarrow> (Inl e, st')
      | (Inr None, st') \<Rightarrow> exit_loop step ps st' acc
      | (Inr (Some ev), st') \<Rightarrow> exit_loop step ps st' (acc @ [ev]))"

text \<open>\<open>exit_signal or 'STRATEGY'\<close>: an absent or empty signal gives the default reason.\<close>

definition exit_reason_of :: "position \<Rightarrow> string" where
  "exit_reason_of pos =
     (case exit_signal pos of None \<Rightarrow> ''STRATEGY'' | Some s \<Rightarrow> if s = [] then ''STRATEGY'' else s)"

text \<open>
  \<open>check_strategy_exits\<close>: every CLOSING position is sold through \<open>execute_exit\<close> with
  order type LIMIT, no limit price, and the position's exit signal as the reason.
\<close>

definition strategy_exit_step :: "world \<Rightarrow> datetime \<Rightarrow> position \<Rightarrow> state
     \<Rightarrow> (py_error + exit_event option) \<times> state" where
  "strategy_exit_step w now pos st =
     close_if_filled now pos (exit_reason_of pos)
       (execute_exit w now st (p_ticker pos) (quantity pos) ''LIMIT'' None (exit_reason_of pos))"

definition check_strategy_exits ::
  "world \<Rightarrow> datetime \<Rightarrow> state \<Rightarrow> (py_error + exit_event list) \<times> state" where
  "check_strategy_exits w now st =
     exit_loop (strategy_exit_step w now)
       (filter (\<lambda>p. p_status p = CLOSING) (positions (store st))) st []"

text \<open>
  \<open>signal_exit\<close>, by which a strategy marks an OPEN position for exit:
  \<open>UPDATE positions SET status = 'CLOSING', exit_signal = ? WHERE ticket_id = ? AND status = 'OPEN'\<close>.
\<close>

definition signal_exit :: "db \<Rightarrow> string \<Rightarrow> string \<Rightarrow> db \<times> bool" where
  "signal_exit d ticket why =
     (d\<lparr>positions := map (\<lambda>p. if ticket_id p = ticket \<and> p_status p = OPEN
                                 then p\<lparr>p_status := CLOSING, exit_signal := Some why\<rparr> else p)
                          (positions d)\<rparr>,
      filter (\<lambda>p. ticket_id p = ticket \<and> p_status p = OPEN) (positions d) \<noteq> [])"

section \<open>Reconciler (core/execution/reconciler.py)\<close>

definition price_tolerance_pct :: real where
  "price_tolerance_pct = 2.0"

definition quantity_tolerance :: real where
  "quantity_tolerance = 0"

definition get_local_positions :: "db \<Rightarrow> position list" where
  "get_local_positions d = filter (\<lambda>p. p_status p = OPEN) (positions d)"

text \<open>
  \<open>_get_alpaca_positions\<close>: a dictionary keyed by symbol, filled in the order of the
  broker's list; an exception of the client gives the empty dictionary.
\<close>

definition get_alpaca_positions :: "world \<Rightarrow> (string \<times> alpaca_position) list" where
  "get_alpaca_positions w =
     (case get_all_positions w of
        Inl e \<Rightarrow> []
      | Inr ps \<Rightarrow> fold (\<lambda>pos m. AList.update (a_symbol pos) pos m) ps [])"

record qty_mismatch =
  qm_ticker :: string
  qm_local_qty :: real
  qm_alpaca_qty :: real
  qm_local_id :: string

record price_mismatch =
  pm_ticker :: string
  pm_local_price :: real
  pm_alpaca_price :: real
  pm_diff_pct :: real
  pm_local_id :: string

record missing_local =
  ml_ticker :: string
  ml_alpaca_qty :: real
  ml_alpaca_price :: real

record results =
  matched :: "string list"
  mismatch_price :: "price_mismatch list"
  mismatch_quantity :: "qty_mismatch list"
  missing_in_alpaca :: "position list"
  missing_in_local :: "missing_local list"

definition no_results :: results where
  "no_results = \<lparr> matched = [], mismatch_price = [], mismatch_quantity = [],
                   missing_in_alpaca = [], missing_in_local = [] \<rparr>"

text \<open>The first loop of \<open>reconcile_all\<close>; the price comparison divides by the local price.\<close>

fun classify_local ::
  "(string \<times> alpaca_position) list \<Rightarrow> position list \<Rightarrow> results \<Rightarrow> py_error + results" where
  "classify_local alpaca [] res = Inr res"
| "classify_local alpaca (l # ls) res =
     (case map_of alpaca (p_ticker l) of
        None \<Rightarrow> classify_local alpaca ls (res\<lparr>missing_in_alpaca := missing_in_alpaca res @ [l]\<rparr>)
      | Some a \<Rightarrow>
          if \<bar>quantity l - a_qty a\<bar> > quantity_tolerance
          then classify_local alpaca ls
                 (res\<lparr>mismatch_quantity := mismatch_quantity res @
                    [\<lparr> qm_ticker = p_ticker l, qm_local_qty = quantity l,
                       qm_alpaca_qty = a_qty a, qm_local_id = ticket_id l \<rparr>]\<rparr>)
          else if entry_price l = 0 then Inl ZeroDivisionError
          else
            (let price_diff_pct = \<bar>entry_price l - avg_entry_price a\<bar> / entry_price l * 100 in
             if price_diff_pct > price_tolerance_pct
             then classify_local alpaca ls
                    (res\<lparr>mismatch_price := mismatch_price res @
                       [\<lparr> pm_ticker = p_ticker l, pm_local_price = entry_price l,
                          pm_alpaca_price = avg_entry_price a, pm_diff_pct = price_diff_pct,
                          pm_local_id = ticket_id l \<rparr>]\<rparr>)
             else classify_local alpaca ls (res\<lparr>matched := matched res @ [p_ticker l]\<rparr>)))"

text \<open>The second loop: the broker's positions no local row names.\<close>

definition missing_locally ::
  "(string \<times> alpaca_position) list \<Rightarrow> position list \<Rightarrow> missing_local list" where
  "missing_locally alpaca locals =
     map (\<lambda>(ticker, a). \<lparr> ml_ticker = ticker, ml_alpaca_qty = a_qty a,
                           ml_alpaca_price = avg_entry_price a \<rparr>)
       (filter (\<lambda>(ticker, a). filter (\<lambda>l. p_ticker l = ticker) locals = []) alpaca)"

datatype recon_status = R_CRITICAL | R_WARNING | R_DEGRADED | R_OK

datatype recon_message =
    Quantity_mismatch nat
  | Local_not_in_alpaca nat
  | Alpaca_not_in_local nat
  | Price_mismatch nat
  | All_reconciled nat

definition determine_status :: "results \<Rightarrow> recon_status \<times> recon_message" where
  "determine_status res =
     (if mismatch_quantity res \<noteq> []
      then (R_CRITICAL, Quantity_mismatch (length (mismatch_quantity res)))
      else if missing_in_alpaca res \<noteq> []
      then (R_CRITICAL, Local_not_in_alpaca (length (missing_in_alpaca res)))
      else if missing_in_local res \<noteq> []
      then (R_WARNING, Alpaca_not_in_local (length (missing_in_local res)))
      else if mismatch_price res \<noteq> []
      then (R_DEGRADED, Price_mismatch (length (mismatch_price res)))
      else (R_OK, All_reconciled (length (matched res))))"

text \<open>\<open>UPDATE positions SET entry_price = ? WHERE ticket_id = ?\<close>\<close>

definition update_entry_price :: "position list \<Rightarrow> string \<Rightarrow> real \<Rightarrow> position list" where
  "update_entry_price ps ticket px =
     map (\<lambda>p. if ticket_id p = ticket then p\<lparr>entry_price := px\<rparr> else p) ps"

text \<open>
  \<open>INSERT INTO positions\<close> under the table's constraints: the primary key \<open>ticket_id\<close> and
  the unique index \<open>ux_positions_one_active\<close> on the ticker of OPEN and CLOSING rows.
\<close>

definition insert_position :: "position list \<Rightarrow> position \<Rightarrow> py_error + position list" where
  "insert_position ps row =
     (if filter (\<lambda>p. ticket_id p = ticket_id row) ps \<noteq> [] then Inl IntegrityError
      else if is_active row \<and> filter (\<lambda>p. is_active p \<and> p_ticker p = p_ticker row) ps \<noteq> []
      then Inl IntegrityError
      else Inr (ps @ [row]))"

text \<open>
  The row \<open>_auto_reconcile\<close> inserts for a broker position; \<open>stamp\<close> is the clock's
  \<open>strftime('%Y%m%d%H%M%S')\<close>. The clock is read once for the run.
\<close>

definition reconciled_row :: "datetime \<Rightarrow> string \<Rightarrow> missing_local \<Rightarrow> position" where
  "reconciled_row now stamp item =
     \<lparr> ticket_id = ''RCL-'' @ ml_ticker item @ ''-'' @ stamp, p_ticker = ml_ticker item,
       entry_time = Some now, entry_price = ml_alpaca_price item,
       quantity = ml_alpaca_qty item, current_price = None,
       p_status = OPEN, p_strategy = ''RECONCILED'', exit_signal = None \<rparr>"

fun insert_missing ::
  "datetime \<Rightarrow> string \<Rightarrow> missing_local list \<Rightarrow> position list \<Rightarrow> py_error + position list" where
  "insert_missing now stamp [] ps = Inr ps"
| "insert_missing now stamp (item # items) ps =
     (case insert_position ps (reconciled_row now stamp item) of
        Inl e \<Rightarrow> Inl e
      | Inr ps' \<Rightarrow> insert_missing now stamp items ps')"

text \<open>
  \<open>_auto_reconcile\<close>: one transaction; an exception leaves it uncommitted and goes to the
  caller.
\<close>

definition auto_reconcile :: "db \<Rightarrow> datetime \<Rightarrow> string \<Rightarrow> results \<Rightarrow> py_error + db" where
  "auto_reconcile d now stamp res =
     (let priced = fold (\<lambda>item ps. update_entry_price ps (pm_local_id item) (pm_alpaca_price item))
                     (mismatch_price res) (positions d)
      in case insert_missing now stamp (missing_in_local res) priced of
           Inl e \<Rightarrow> Inl e
         | Inr ps \<Rightarrow> Inr (d\<lparr>positions := ps\<rparr>))"

definition status_text :: "recon_status \<Rightarrow> string" where
  "status_text s =
     (case s of R_CRITICAL \<Rightarrow> ''CRITICAL'' | R_WARNING \<Rightarrow> ''WARNING''
      | R_DEGRADED \<Rightarrow> ''DEGRADED'' | R_OK \<Rightarrow> ''OK'')"

definition log_reconciliation :: "db \<Rightarrow> datetime \<Rightarrow> recon_status \<Rightarrow> db" where
  "log_reconciliation d now status =
     d\<lparr>health_state := health_state d @ [\<lparr> h_timestamp = now, h_state = status_text status \<rparr>]\<rparr>"

definition classify :: "world \<Rightarrow> db \<Rightarrow> py_error + results" where
  "classify w d =
     (case classify_local (get_alpaca_positions w) (get_local_positions d) no_results of
        Inl e \<Rightarrow> Inl e
      | Inr res \<Rightarrow>
          Inr (res\<lparr>missing_in_local :=
                 missing_locally (get_alpaca_positions w) (get_local_positions d)\<rparr>))"

definition reconcile_all ::
  "world \<Rightarrow> db \<Rightarrow> datetime \<Rightarrow> string
     \<Rightarrow> py_error + ((recon_status \<times> recon_message \<times> results) \<times> db)" where
  "reconcile_all w d now stamp =
     (case classify w d of
        Inl e \<Rightarrow> Inl e
      | Inr res \<Rightarrow>
          (case determine_status res of
             (status, message) \<Rightarrow>
               (case (if status = R_WARNING \<or> status = R_DEGRADED
                      then auto_reconcile d now stamp res else Inr d) of
                  Inl e \<Rightarrow> Inl e
                | Inr d1 \<Rightarrow> Inr ((status, message, res), log_reconciliation d1 now status))))"

definition quick_check :: "world \<Rightarrow> db \<Rightarrow> bool" where
  "quick_check w d = (length (get_local_positions d) = length (get_alpaca_positions w))"

section \<open>Pending orders (Executor.check_pending_orders)\<close>

text \<open>Python's \<open>sub in s\<close> on strings.\<close>

fun contains :: "string \<Rightarrow> string \<Rightarrow> bool" where
  "contains sub [] = (sub = [])"
| "contains sub (c # cs) = (take (length sub) (c # cs) = sub \<or> contains sub cs)"

record fill =
  f_ticket_id :: string
  f_ticker :: string
  f_fill_price :: real
  f_quantity :: real
  f_order_id :: string

text \<open>
  One round of the loop over \<open>list(self.pending_orders.items())\<close>. An exception inside the
  \<open>try\<close> (the broker's, or \<open>float(None)\<close> on a fill without a price) is logged and the
  order stays pending.
\<close>

definition poll_order ::
  "world \<Rightarrow> datetime \<Rightarrow> string \<times> pending_info \<Rightarrow> state \<times> fill list \<Rightarrow> state \<times> fill list" where
  "poll_order w now entry acc =
     (case entry of (order_id, info) \<Rightarrow>
      case acc of (st, filled) \<Rightarrow>
        (case get_order_by_id w order_id of
           Inl e \<Rightarrow> (st, filled)
         | Inr ord \<Rightarrow>
             (case filled_at ord of
                Some _ \<Rightarrow>
                  (case filled_avg_price ord of
                     None \<Rightarrow> (st, filled)
                   | Some fill_price \<Rightarrow>
                       (st\<lparr>store := record_execution (store st) now (pi_ticket_id info)
                                      (pi_ticker info) (pi_expected_price info) fill_price
                                      (pi_quantity info) (filled_qty ord) (pi_order_type info)
                                      (if \<not> contains ''EXIT'' (pi_order_type info) then BUY
                                       else SELL),
                           exec := (exec st)\<lparr>pending_orders :=
                                     AList.delete order_id (pending_orders (exec st))\<rparr>\<rparr>,
                        filled @ [\<lparr> f_ticket_id = pi_ticket_id info, f_ticker = pi_ticker info,
                                    f_fill_price = fill_price, f_quantity = filled_qty ord,
                                    f_order_id = order_id \<rparr>]))
              | None \<Rightarrow>
                  if canceled_at ord \<noteq> None \<or> rejected_at ord \<noteq> None
                  then (st\<lparr>exec := (exec st)\<lparr>pending_orders :=
                                AList.delete order_id (pending_orders (exec st))\<rparr>\<rparr>, filled)
                  else (st, filled))))"

record pending_report =
  checked :: nat
  filled :: "fill list"
  still_pending :: "nat option"

definition check_pending_orders :: "world \<Rightarrow> datetime \<Rightarrow> state \<Rightarrow> pending_report \<times> state" where
  "check_pending_orders w now st =
     (if pending_orders (exec st) = []
      then (\<lparr> checked = 0, filled = [], still_pending = None \<rparr>, st)
      else
        (case fold (poll_order w now) (pending_orders (exec st)) (st, []) of
           (st', done) \<Rightarrow>
             (\<lparr> checked = length (pending_orders (exec st')) + length done, filled = done,
                still_pending = Some (length (pending_orders (exec st'))) \<rparr>, st')))"

text \<open>
  An order the broker reports as done: filled (with its price), or not filled and
  cancelled or rejected.
\<close>

definition broker_done :: "world \<Rightarrow> string \<Rightarrow> bool" where
  "broker_done w order_id =
     (case get_order_by_id w order_id of
        Inl e \<Rightarrow> False
      | Inr ord \<Rightarrow>
          (case filled_at ord of
             Some _ \<Rightarrow> filled_avg_price ord \<noteq> None
           | None \<Rightarrow> canceled_at ord \<noteq> None \<or> rejected_at ord \<noteq> None))"

section \<open>Sample data\<close>

definition acme_open :: position where
  "acme_open =
     \<lparr> ticket_id = ''TKT-0A1B2C3D'', p_ticker = ''ACME'', entry_time = Some 0,
       entry_price = 10.21, quantity = 19, current_price = Some 10.21,
       p_status = OPEN, p_strategy = ''RSI'', exit_signal = None \<rparr>"


definition acme_signal :: "signal_status \<Rightarrow> signal" where
  "acme_signal st =
     \<lparr> signal_id = ''ACME_RSI_2024010214'', s_ticker = ''ACME'', s_strategy = ''RSI'',
       trigger_time = 0, trigger_price = Some 10.05, rebound_bottom = Some 10,
       go_in_price = Some 10.2, profit_target = Some 10.5, s_stop_loss = Some 9.8,
       confidence_score = Some 75, s_status = st, cooldown_until = None \<rparr>"

definition acme_db :: "signal_status \<Rightarrow> db" where
  "acme_db st = empty_db\<lparr>signals := [acme_signal st]\<rparr>"

definition quiet_world :: world where
  "quiet_world =
     \<lparr> submit_order = (\<lambda>_. Inl BrokerError), get_order_by_id = (\<lambda>_. Inl BrokerError),
       get_all_positions = Inr [], new_ticket = (\<lambda>_. ''TKT-0A1B2C3D'') \<rparr>"

definition idle_state :: state where
  "idle_state =
     \<lparr> store = empty_db, exec = \<lparr> pending_orders = [], tickets_drawn = 0, submitted = [] \<rparr> \<rparr>"

definition fresh_sentinel :: Sentinel where
  "fresh_sentinel =
     \<lparr> consecutive_failures = 0, api_calls_this_minute = 0, minute_start = 0,
       kill_switch_engaged = False, kill_reason = [] \<rparr>"

definition calm_readings :: readings where
  "calm_readings = \<lparr> r_errors_today = 0, r_quick_check = Inr True, r_regime = ''NEUTRAL'' \<rparr>"

definition acme_fill :: order where
  "acme_fill =
     \<lparr> o_id = ''ord-1'', filled_at = Some 10, filled_avg_price = Some 9.75, filled_qty = 19,
       canceled_at = None, rejected_at = None \<rparr>"

definition filling_world :: world where
  "filling_world = quiet_world\<lparr>submit_order := (\<lambda>_. Inr acme_fill)\<rparr>"

definition busy_sentinel :: Sentinel where
  "busy_sentinel = fresh_sentinel\<lparr>api_calls_this_minute := 130\<rparr>"

definition closing_state :: state where
  "closing_state =
     idle_state\<lparr>store := fst (signal_exit ((acme_db EXECUTED)\<lparr>positions := [acme_open]\<rparr>)
                                ''TKT-0A1B2C3D'' ''STOP_LOSS'')\<rparr>"

definition zeta_at_broker :: alpaca_position where
  "zeta_at_broker =
     \<lparr> a_symbol = ''ZETA'', a_qty = 5, avg_entry_price = 20, a_current_price = 21,
       unrealized_pl = 5 \<rparr>"

definition acme_at_broker :: "real \<Rightarrow> alpaca_position" where
  "acme_at_broker px =
     \<lparr> a_symbol = ''ACME'', a_qty = 19, avg_entry_price = px, a_current_price = 10.3,
       unrealized_pl = 0 \<rparr>"

definition broker_holding :: "alpaca_position list \<Rightarrow> world" where
  "broker_holding ps = quiet_world\<lparr>get_all_positions := Inr ps\<rparr>"

definition acme_local :: db where
  "acme_local = empty_db\<lparr>positions := [acme_open]\<rparr>"






section \<open>Rounding keeps the sign\<close>







section \<open>Position sizing: the share count\<close>


text \<open>
  Claim C8, as stated, fails: with an ATR of zero the specification's rule takes the
  low-volatility multiplier 1.2 (0 / price < 0.01), while \<open>calculate_shares\<close> tests
  \<open>if atr and price > 0\<close>, finds the zero falsy and keeps the multiplier 1. With the
  settings' sizer, price 10, confidence 50 and capital 10000 the code buys 100 shares where
  the stated formula gives 120.
\<close>

theorem calculate_shares_zero_atr_counterexample:
  "shares (calculate_shares settings_sizer 10 50 (Some 0) (Some 10000)) = 100 \<and>
   spec_shares (max_per_trade settings_sizer) 10 50 (Some 0) 10000 = 120"
  by code_simp

text \<open>
  Claim C8, amended: for every price > 0, in a run whose products and quotients stay within
  the finite doubles, the share count is
  floor(min(min(max_per_trade, available * 0.2) * (confidence / 100) * vol_mult, max_per_trade)
  / price), each operation rounded to double precision in this order, where vol_mult is 1
  when the ATR is absent or zero, and otherwise 0.5 if atr / price > 0.05, 1.2 if
  atr / price < 0.01 and 1 in between; the available capital defaults to the sizer's total
  capital.
\<close>

theorem calculate_shares_formula:
  assumes "0 < double price"
    and "no_overflow self price confidence atr available_capital"
  shows "(let p = double price; m = double (max_per_trade self); c = double confidence;
              a = double (case available_capital of
                            None \<Rightarrow> total_capital self | Some v \<Rightarrow> v)
          in shares (calculate_shares self price confidence atr available_capital) =
             \<lfloor>fdiv (min (fmul (fmul (min m (fmul a (double 0.2))) (fdiv c 100))
                               (amended_vol_mult atr price))
                         m)
                    p\<rfloor>)"
  using assms(1)
  by (simp add: calculate_shares_def volatility_of_def amended_vol_mult_def truthy_def Let_def
      split: option.splits)

theorem calculate_shares_formula_witness:
  "(0::real) < double 9.8 \<and>
   no_overflow settings_sizer 9.8 49 (Some 0.28) None \<and>
   shares (calculate_shares settings_sizer 9.8 49 (Some 0.28) None) = 99"
proof -
  have p: "(0::real) < double 9.8"
    by code_simp
  have n: "no_overflow settings_sizer 9.8 49 (Some 0.28) None"
    by code_simp
  have "\<lfloor>fdiv (min (fmul (fmul (min (double (max_per_trade settings_sizer))
                                     (fmul (double (total_capital settings_sizer)) (double 0.2)))
                                (fdiv (double 49) 100))
                          (amended_vol_mult (Some 0.28) 9.8))
                    (double (max_per_trade settings_sizer)))
               (double 9.8)\<rfloor> = (99::int)"
    by code_simp
  with calculate_shares_formula [OF p n] p n show ?thesis by (simp add: Let_def)
qed

section \<open>The risk gate\<close>




section \<open>The signal state machine\<close>

text \<open>
  Claim C2 holds of the specification and not of the code: \<open>mark_executed\<close> and
  \<open>reject_signal\<close> update by \<open>signal_id\<close> alone, without the status test their sibling
  updates carry (\<open>status = 'KIV'\<close> in \<open>check_confirmation\<close>, \<open>status = 'CONFIRMED'\<close> in
  the expiry updates). An EXPIRED row becomes EXECUTED, and an EXECUTED row REJECTED.
\<close>

theorem mark_executed_rewrites_terminal:
  "mark_executed (acme_db EXPIRED) ''ACME_RSI_2024010214'' ''TKT-0A1B2C3D'' =
     (acme_db EXECUTED, True) \<and>
   reject_signal (acme_db EXECUTED) ''ACME_RSI_2024010214'' ''DAILY_LOSS_LIMIT_HIT'' =
     (acme_db REJECTED, True)"
  by (simp add: mark_executed_def reject_signal_def update_status_def rowcount_def acme_db_def
      acme_signal_def empty_db_def)

lemma map_filter_snoc_None:
  "f x = None \<Longrightarrow> List.map_filter f (xs @ [x]) = List.map_filter f xs"
  by (simp add: List.map_filter_def)

lemma is_on_cooldown_snoc:
  "cooldown_until r = None \<Longrightarrow>
   is_on_cooldown (d\<lparr>signals := signals d @ [r]\<rparr>) now ticker strategy =
   is_on_cooldown d now ticker strategy"
  by (simp add: is_on_cooldown_def map_filter_snoc_None cooldown_of_def)

text \<open>
  Claim C7, as stated, fails: with a CONFIRMED row of the pair in the table and no
  cooldown, both calls return EXISTS and no KIV row of the pair exists afterwards.
\<close>

theorem add_to_kiv_twice_counterexample:
  "add_to_kiv (acme_db CONFIRMED) 100 ''2024010214'' ''ACME'' ''RSI'' 10.05 10 10.2 10.5 9.8 75 =
     (KIV_EXISTS CONFIRMED, acme_db CONFIRMED) \<and>
   add_to_kiv (acme_db CONFIRMED) 160 ''2024010214'' ''ACME'' ''RSI'' 10.05 10 10.2 10.5 9.8 75 =
     (KIV_EXISTS CONFIRMED, acme_db CONFIRMED) \<and>
   is_on_cooldown (acme_db CONFIRMED) 100 ''ACME'' ''RSI'' = None \<and>
   is_on_cooldown (acme_db CONFIRMED) 160 ''ACME'' ''RSI'' = None \<and>
   kiv_rows (acme_db CONFIRMED) ''ACME'' ''RSI'' = []"
  by (simp add: add_to_kiv_def is_on_cooldown_def cooldown_of_def acme_db_def acme_signal_def
      empty_db_def kiv_duplicate_def generate_signal_id_def kiv_rows_def)

text \<open>
  Claim C7, amended: when \<open>add_to_kiv\<close> is called twice for the same (ticker, strategy) in
  the same hourly bucket with no cooldown active, the second call returns EXISTS and leaves
  the table as the first call left it. When, before the first call, no row carries the
  bucket's signal id and no KIV or CONFIRMED row of the pair exists, the first call returns
  ADDED with the id ticker_strategy_bucket, the second returns EXISTS for that KIV row, and
  exactly one KIV row of the pair exists afterwards.
\<close>

theorem add_to_kiv_twice:
  assumes c1: "is_on_cooldown d now1 ticker strategy = None"
      and c2: "is_on_cooldown d now2 ticker strategy = None"
      and r1: "add_to_kiv d now1 bucket ticker strategy tp rb gi pt sl c = (res1, d1)"
      and r2: "add_to_kiv d1 now2 bucket ticker strategy tp rb gi pt sl c = (res2, d2)"
  shows "(\<exists>st. res2 = KIV_EXISTS st) \<and> d2 = d1 \<and>
         (filter (kiv_duplicate (generate_signal_id bucket ticker strategy) ticker strategy)
            (signals d) = [] \<longrightarrow>
          res1 = KIV_ADDED (generate_signal_id bucket ticker strategy) c \<and>
          res2 = KIV_EXISTS KIV \<and>
          length (kiv_rows d2 ticker strategy) = 1)"
proof (cases "filter (kiv_duplicate (generate_signal_id bucket ticker strategy) ticker strategy)
                (signals d)")
  case Nil
  let ?sid = "generate_signal_id bucket ticker strategy"
  let ?row = "\<lparr> signal_id = ?sid, s_ticker = ticker, s_strategy = strategy,
                 trigger_time = now1, trigger_price = Some tp, rebound_bottom = Some rb,
                 go_in_price = Some gi, profit_target = Some pt, s_stop_loss = Some sl,
                 confidence_score = Some c, s_status = KIV, cooldown_until = None \<rparr>"
  from r1 c1 Nil have res1: "res1 = KIV_ADDED ?sid c"
    and d1: "d1 = d\<lparr>signals := signals d @ [?row]\<rparr>"
    by (simp_all add: add_to_kiv_def Let_def)
  have cool: "is_on_cooldown d1 now2 ticker strategy = None"
    unfolding d1 using c2 by (simp add: is_on_cooldown_snoc)
  have dup: "filter (kiv_duplicate ?sid ticker strategy) (signals d1) = [?row]"
    unfolding d1 using Nil by (simp add: kiv_duplicate_def)
  from r2 cool dup have res2: "res2 = KIV_EXISTS KIV" and d2: "d2 = d1"
    by (simp_all add: add_to_kiv_def Let_def)
  have "filter (\<lambda>r. s_ticker r = ticker \<and> s_strategy r = strategy \<and> s_status r = KIV)
          (signals d) = []"
    using Nil by (auto simp: filter_empty_conv kiv_duplicate_def)
  then have "length (kiv_rows d2 ticker strategy) = 1"
    unfolding d2 d1 by (simp add: kiv_rows_def)
  with res1 res2 d2 show ?thesis by simp
next
  case (Cons e es)
  from r1 c1 Cons have d1: "d1 = d"
    by (simp add: add_to_kiv_def Let_def)
  from r2 c2 Cons show ?thesis
    unfolding d1 by (auto simp: add_to_kiv_def Let_def)
qed

theorem add_to_kiv_twice_witness:
  "add_to_kiv (snd (add_to_kiv empty_db 100 ''2024010214'' ''ACME'' ''RSI'' 10.05 10 10.2 10.5 9.8 75))
     160 ''2024010214'' ''ACME'' ''RSI'' 10.05 10 10.2 10.5 9.8 75 =
     (KIV_EXISTS KIV,
      snd (add_to_kiv empty_db 100 ''2024010214'' ''ACME'' ''RSI'' 10.05 10 10.2 10.5 9.8 75)) \<and>
   fst (add_to_kiv empty_db 100 ''2024010214'' ''ACME'' ''RSI'' 10.05 10 10.2 10.5 9.8 75) =
     KIV_ADDED ''ACME_RSI_2024010214'' 75 \<and>
   length (kiv_rows
     (snd (add_to_kiv empty_db 100 ''2024010214'' ''ACME'' ''RSI'' 10.05 10 10.2 10.5 9.8 75))
     ''ACME'' ''RSI'') = 1"
proof -
  let ?r1 = "add_to_kiv empty_db 100 ''2024010214'' ''ACME'' ''RSI'' 10.05 10 10.2 10.5 9.8 75"
  let ?r2 = "add_to_kiv (snd ?r1) 160 ''2024010214'' ''ACME'' ''RSI'' 10.05 10 10.2 10.5 9.8 75"
  have c: "is_on_cooldown empty_db 100 ''ACME'' ''RSI'' = None"
          "is_on_cooldown empty_db 160 ''ACME'' ''RSI'' = None"
    by (simp_all add: is_on_cooldown_def empty_db_def)
  have fresh: "filter (kiv_duplicate (generate_signal_id ''2024010214'' ''ACME'' ''RSI'')
                 ''ACME'' ''RSI'') (signals empty_db) = []"
    by (simp add: empty_db_def)
  have sid: "generate_signal_id ''2024010214'' ''ACME'' ''RSI'' = ''ACME_RSI_2024010214''"
    by (simp add: generate_signal_id_def)
  have p1: "?r1 = (fst ?r1, snd ?r1)" and p2: "?r2 = (fst ?r2, snd ?r2)"
    by simp_all
  from add_to_kiv_twice [OF c p1 p2] fresh
  have same: "snd ?r2 = snd ?r1"
    and added: "fst ?r1 = KIV_ADDED (generate_signal_id ''2024010214'' ''ACME'' ''RSI'') 75"
    and again: "fst ?r2 = KIV_EXISTS KIV"
    and one: "length (kiv_rows (snd ?r2) ''ACME'' ''RSI'') = 1"
    by blast+
  from one have one': "length (kiv_rows (snd ?r1) ''ACME'' ''RSI'') = 1"
    unfolding same .
  from again same have "?r2 = (KIV_EXISTS KIV, snd ?r1)"
    by (metis p2)
  with added one' show ?thesis
    unfolding sid by blast
qed

lemma newest_None: "(newest rs = None) = (rs = [])"
  by (induction rs) (auto split: option.splits)

lemma newest_member: "newest rs = Some r \<Longrightarrow> r \<in> set rs"
  by (induction rs arbitrary: r) (auto simp: newest_None split: option.splits if_splits)

lemma newest_greatest:
  "newest rs = Some r \<Longrightarrow> x \<in> set rs \<Longrightarrow> trigger_time x \<le> trigger_time r"
  by (induction rs arbitrary: r) (auto simp: newest_None split: option.splits if_splits)

text \<open>
  Claim C9, as stated, fails: a KIV row triggered at second 0 is exactly 4 hours old at
  second 14400 (14400.0 / 3600 is the double 4.0); \<open>check_confirmation\<close> tests
  \<open>age_hours > kiv_timeout_hours\<close>, so the row is not expired: at the price 10, below the
  bounce threshold, the answer is NOT_CONFIRMED and the row stays KIV.
\<close>

theorem check_confirmation_boundary_counterexample:
  "check_confirmation default_processor (acme_db KIV) 14400 ''ACME'' ''RSI'' 10 =
     (Not_confirmed ''NOT_CONFIRMED'', acme_db KIV) \<and>
   age_hours 14400 (trigger_time (acme_signal KIV)) = kiv_timeout_hours default_processor"
  by code_simp

text \<open>
  Claim C9, amended: \<open>check_confirmation\<close> looks at the newest KIV row of the pair (the
  one with the greatest \<open>trigger_time\<close>) and expires it, answering EXPIRED, exactly when
  its age in hours, computed in double precision, is strictly greater than \<open>kiv_timeout\<close>.
  A row whose age is exactly \<open>kiv_timeout\<close>, or less, is not expired: it is moved to
  CONFIRMED when its \<open>rebound_bottom\<close> is positive and the price has reached the double
  product \<open>rebound_bottom * 1.01\<close>, and otherwise stays KIV with the answer NOT_CONFIRMED.
\<close>

theorem check_confirmation_expiry:
  assumes "newest (kiv_rows d ticker strategy) = Some row"
  shows "row \<in> set (signals d) \<and> s_ticker row = ticker \<and> s_strategy row = strategy \<and>
         s_status row = KIV \<and>
         (\<forall>r \<in> set (signals d).
            s_ticker r = ticker \<and> s_strategy r = strategy \<and> s_status r = KIV \<longrightarrow>
            trigger_time r \<le> trigger_time row) \<and>
         ((check_confirmation self d now ticker strategy price =
            (Not_confirmed ''EXPIRED'', update_status d (signal_id row) EXPIRED)) =
          (age_hours now (trigger_time row) > kiv_timeout_hours self)) \<and>
         (age_hours now (trigger_time row) \<le> kiv_timeout_hours self \<longrightarrow>
          check_confirmation self d now ticker strategy price =
            (case rebound_bottom row of
               None \<Rightarrow> (Not_confirmed ''NOT_CONFIRMED'', d)
             | Some rb \<Rightarrow>
                 if double rb > 0 \<and> double price \<ge> fmul (double rb) (double 1.01)
                 then (Confirmed (signal_id row) (go_in_price row) (profit_target row)
                         (s_stop_loss row) (confidence_score row),
                       update_status d (signal_id row) CONFIRMED)
                 else (Not_confirmed ''NOT_CONFIRMED'', d)))"
proof -
  from assms have m: "row \<in> set (kiv_rows d ticker strategy)"
    by (rule newest_member)
  then have a: "row \<in> set (signals d) \<and> s_ticker row = ticker \<and> s_strategy row = strategy \<and>
      s_status row = KIV"
    by (simp add: kiv_rows_def)
  have b: "\<forall>r \<in> set (signals d).
      s_ticker r = ticker \<and> s_strategy r = strategy \<and> s_status r = KIV \<longrightarrow>
      trigger_time r \<le> trigger_time row"
  proof (intro ballI impI)
    fix r
    assume "r \<in> set (signals d)"
      and "s_ticker r = ticker \<and> s_strategy r = strategy \<and> s_status r = KIV"
    then have "r \<in> set (kiv_rows d ticker strategy)"
      by (simp add: kiv_rows_def)
    with assms show "trigger_time r \<le> trigger_time row"
      by (rule newest_greatest)
  qed
  have c: "(check_confirmation self d now ticker strategy price =
            (Not_confirmed ''EXPIRED'', update_status d (signal_id row) EXPIRED)) =
          (age_hours now (trigger_time row) > kiv_timeout_hours self)"
    using assms by (auto simp: check_confirmation_def Let_def split: option.splits)
  have e: "age_hours now (trigger_time row) \<le> kiv_timeout_hours self \<longrightarrow>
          check_confirmation self d now ticker strategy price =
            (case rebound_bottom row of
               None \<Rightarrow> (Not_confirmed ''NOT_CONFIRMED'', d)
             | Some rb \<Rightarrow>
                 if double rb > 0 \<and> double price \<ge> fmul (double rb) (double 1.01)
                 then (Confirmed (signal_id row) (go_in_price row) (profit_target row)
                         (s_stop_loss row) (confidence_score row),
                       update_status d (signal_id row) CONFIRMED)
                 else (Not_confirmed ''NOT_CONFIRMED'', d))"
    using assms by (auto simp: check_confirmation_def Let_def split: option.splits)
  from a b c e show ?thesis by blast
qed

theorem check_confirmation_expiry_witness:
  "newest (kiv_rows (acme_db KIV) ''ACME'' ''RSI'') = Some (acme_signal KIV) \<and>
   age_hours 14400 (trigger_time (acme_signal KIV)) = kiv_timeout_hours default_processor \<and>
   check_confirmation default_processor (acme_db KIV) 14400 ''ACME'' ''RSI'' 10.25 =
     (Confirmed ''ACME_RSI_2024010214'' (Some 10.2) (Some 10.5) (Some 9.8) (Some 75),
      acme_db CONFIRMED) \<and>
   check_confirmation default_processor (acme_db KIV) 14401 ''ACME'' ''RSI'' 10.25 =
     (Not_confirmed ''EXPIRED'', acme_db EXPIRED)"
proof -
  have n: "newest (kiv_rows (acme_db KIV) ''ACME'' ''RSI'') = Some (acme_signal KIV)"
    by code_simp
  have age: "age_hours 14400 (trigger_time (acme_signal KIV)) = kiv_timeout_hours default_processor"
    by code_simp
  have late: "age_hours 14401 (trigger_time (acme_signal KIV)) > kiv_timeout_hours default_processor"
    by code_simp
  have rhs: "(case rebound_bottom (acme_signal KIV) of
           None \<Rightarrow> (Not_confirmed ''NOT_CONFIRMED'', acme_db KIV)
         | Some rb \<Rightarrow>
             if double rb > 0 \<and> double 10.25 \<ge> fmul (double rb) (double 1.01)
             then (Confirmed (signal_id (acme_signal KIV)) (go_in_price (acme_signal KIV))
                     (profit_target (acme_signal KIV)) (s_stop_loss (acme_signal KIV))
                     (confidence_score (acme_signal KIV)),
                   update_status (acme_db KIV) (signal_id (acme_signal KIV)) CONFIRMED)
             else (Not_confirmed ''NOT_CONFIRMED'', acme_db KIV)) =
        (Confirmed ''ACME_RSI_2024010214'' (Some 10.2) (Some 10.5) (Some 9.8) (Some 75),
         acme_db CONFIRMED)"
    by code_simp
  have upd: "update_status (acme_db KIV) (signal_id (acme_signal KIV)) EXPIRED = acme_db EXPIRED"
    by code_simp
  from check_confirmation_expiry [OF n, of default_processor 14400 "10.25"] age rhs
  have c1: "check_confirmation default_processor (acme_db KIV) 14400 ''ACME'' ''RSI'' 10.25 =
     (Confirmed ''ACME_RSI_2024010214'' (Some 10.2) (Some 10.5) (Some 9.8) (Some 75),
      acme_db CONFIRMED)"
    by simp
  from check_confirmation_expiry [OF n, of default_processor 14401 "10.25"] late upd
  have c2: "check_confirmation default_processor (acme_db KIV) 14401 ''ACME'' ''RSI'' 10.25 =
     (Not_confirmed ''EXPIRED'', acme_db EXPIRED)"
    by simp
  from n age c1 c2 show ?thesis by blast
qed

section \<open>Exits through the executor\<close>

lemma upper_LIMIT: "upper ''LIMIT'' \<noteq> ''MARKET''"
  by (simp add: upper_def upper_char_def)

text \<open>
  Claim C10: \<open>execute_exit\<close> with order type LIMIT, a reason other than STOP_LOSS and no
  limit price returns FAILED carrying the error ``Limit price required for LIMIT exit'';
  no request reaches the broker, the pending map gains no entry and no execution-quality
  row is written (the store is unchanged).
\<close>

theorem execute_exit_limit_without_price:
  assumes "why \<noteq> ''STOP_LOSS''"
    and "execute_exit w now st ticker qty ''LIMIT'' None why = (res, st')"
  shows "res = FAILED (new_ticket w (tickets_drawn (exec st)))
                 (ValueError ''Limit price required for LIMIT exit'') \<and>
         submitted (exec st') = submitted (exec st) \<and>
         pending_orders (exec st') = pending_orders (exec st) \<and>
         store st' = store st"
  using assms by (auto simp: execute_exit_def upper_LIMIT Let_def)

theorem execute_exit_limit_without_price_witness:
  "''STRATEGY'' \<noteq> ''STOP_LOSS'' \<and>
   fst (execute_exit quiet_world 0 idle_state ''ACME'' 19 ''LIMIT'' None ''STRATEGY'') =
     FAILED ''TKT-0A1B2C3D'' (ValueError ''Limit price required for LIMIT exit'') \<and>
   submitted (exec (snd (execute_exit quiet_world 0 idle_state ''ACME'' 19 ''LIMIT'' None
     ''STRATEGY''))) = [] \<and>
   pending_orders (exec (snd (execute_exit quiet_world 0 idle_state ''ACME'' 19 ''LIMIT'' None
     ''STRATEGY''))) = [] \<and>
   store (snd (execute_exit quiet_world 0 idle_state ''ACME'' 19 ''LIMIT'' None ''STRATEGY'')) =
     empty_db"
proof -
  have ne: "''STRATEGY'' \<noteq> ''STOP_LOSS''" by simp
  let ?r = "execute_exit quiet_world 0 idle_state ''ACME'' 19 ''LIMIT'' None ''STRATEGY''"
  have "?r = (fst ?r, snd ?r)" by simp
  from execute_exit_limit_without_price [OF ne this] ne show ?thesis
    by (simp add: quiet_world_def idle_state_def)
qed

section \<open>The sentinel's roll-up\<close>

lemma run_checks_kill_switch:
  "kill_switch_engaged (snd (run_checks self obs now)) = kill_switch_engaged self"
  by (simp add: run_checks_def check_api_usage_def check_reconciliation_def Let_def
      split: prod.splits sum.splits)

lemma check_health_kill_switch:
  "kill_switch_engaged (fst (snd (check_health self obs now d))) = kill_switch_engaged self"
  using run_checks_kill_switch [of self obs now]
  by (cases "run_checks self obs now") (simp add: check_health_def split: prod.splits)

lemma should_trade_verdict:
  "fst (fst (should_trade self obs now d)) =
     (\<not> kill_switch_engaged (fst (snd (check_health self obs now d))) \<and>
      fst (fst (check_health self obs now d)) \<noteq> RED)"
  by (cases "check_health self obs now d") (auto simp: should_trade_def split: if_splits)

text \<open>
  Claim C5, as stated, fails: with 130 API calls in the minute (72.2 per cent of 180) and
  every other reading calm, no check is CRITICAL or WARNING (the API check warns above 75
  per cent), yet the roll-up of these checks is YELLOW, by its ``near limits'' rule above 70
  per cent, where the stated rule gives GREEN.
\<close>

theorem health_rollup_counterexample:
  "fst (determine_health_state (fst (run_checks busy_sentinel calm_readings 30))) = YELLOW \<and>
   spec_rollup (fst (run_checks busy_sentinel calm_readings 30)) = GREEN \<and>
   named_checks (fst (run_checks busy_sentinel calm_readings 30)) =
     [(''api_usage'', Check_OK), (''data_quality'', Check_OK), (''reconciliation'', Check_OK),
      (''market_conditions'', Check_OK), (''kill_switch'', Check_OK)]"
  by (simp add: determine_health_state_def spec_rollup_def run_checks_def check_api_usage_def
      check_data_quality_def check_reconciliation_def check_market_conditions_def
      check_kill_switch_def named_checks_def busy_sentinel_def fresh_sentinel_def
      calm_readings_def timedelta_seconds_def max_api_calls_per_min_def
      max_data_errors_per_day_def max_consecutive_failures_def)

text \<open>
  Claim C5, amended: the roll-up returns RED if any check is CRITICAL or the consecutive
  failure counter has reached its maximum; otherwise YELLOW if any check is WARNING, or the
  API usage is above 70 per cent, or today's errors exceed half the daily maximum; otherwise
  GREEN. \<open>should_trade\<close> denies exactly when the state its health check rolls up is RED or
  the kill switch is engaged.
\<close>

theorem health_rollup:
  "fst (determine_health_state c) =
     (if filter (\<lambda>(name, s). s = Check_CRITICAL) (named_checks c) \<noteq> []
         \<or> c_consecutive_failures c \<ge> max_consecutive_failures then RED
      else if filter (\<lambda>(name, s). s = Check_WARNING) (named_checks c) \<noteq> []
              \<or> api_usage_pct c > 70
              \<or> real (errors_today c) > max_data_errors_per_day * 0.5 then YELLOW
      else GREEN) \<and>
   (\<not> fst (fst (should_trade self obs now d))) =
     (fst (fst (check_health self obs now d)) = RED \<or> kill_switch_engaged self)"
proof
  show "fst (determine_health_state c) =
     (if filter (\<lambda>(name, s). s = Check_CRITICAL) (named_checks c) \<noteq> []
         \<or> c_consecutive_failures c \<ge> max_consecutive_failures then RED
      else if filter (\<lambda>(name, s). s = Check_WARNING) (named_checks c) \<noteq> []
              \<or> api_usage_pct c > 70
              \<or> real (errors_today c) > max_data_errors_per_day * 0.5 then YELLOW
      else GREEN)"
    by (simp add: determine_health_state_def Let_def)
  show "(\<not> fst (fst (should_trade self obs now d))) =
     (fst (fst (check_health self obs now d)) = RED \<or> kill_switch_engaged self)"
    by (auto simp: should_trade_verdict check_health_kill_switch)
qed

theorem health_rollup_witness:
  "fst (determine_health_state (fst (run_checks busy_sentinel calm_readings 30))) = YELLOW \<and>
   fst (fst (should_trade busy_sentinel calm_readings 30 empty_db)) \<and>
   fst (fst (check_health busy_sentinel calm_readings 30 empty_db)) = YELLOW \<and>
   \<not> kill_switch_engaged busy_sentinel"
proof -
  let ?c = "fst (run_checks busy_sentinel calm_readings 30)"
  have c: "?c = \<lparr> api_usage_pct = 650 / 9, api_usage_status = Check_OK, errors_today = 0,
                   data_quality_status = Check_OK, reconciliation_status = Check_OK,
                   market_conditions_status = Check_OK, kill_switch_status = Check_OK,
                   c_consecutive_failures = 0 \<rparr>"
    by (simp add: run_checks_def check_api_usage_def check_data_quality_def
        check_reconciliation_def check_market_conditions_def check_kill_switch_def
        busy_sentinel_def fresh_sentinel_def calm_readings_def timedelta_seconds_def
        max_api_calls_per_min_def max_data_errors_per_day_def)
  have k: "\<not> kill_switch_engaged busy_sentinel"
    by (simp add: busy_sentinel_def fresh_sentinel_def)
  from health_rollup [of ?c busy_sentinel calm_readings 30 empty_db]
  have st: "fst (determine_health_state ?c) = YELLOW"
    and tr: "(\<not> fst (fst (should_trade busy_sentinel calm_readings 30 empty_db))) =
             (fst (fst (check_health busy_sentinel calm_readings 30 empty_db)) = RED \<or>
              kill_switch_engaged busy_sentinel)"
    by (simp_all add: c named_checks_def max_consecutive_failures_def
        max_data_errors_per_day_def)
  have h: "fst (fst (check_health busy_sentinel calm_readings 30 empty_db)) =
           fst (determine_health_state ?c)"
    by (cases "run_checks busy_sentinel calm_readings 30")
       (simp add: check_health_def split: prod.splits)
  from st tr h k show ?thesis by simp
qed

section \<open>Exits and cooldowns\<close>

lemma record_execution_signals:
  "signals (record_execution d now t tk e a eq aq ot sd) = signals d"
  by (simp add: record_execution_def Let_def)

lemma execute_exit_signals:
  "signals (store (snd (execute_exit w now st ticker qty ot lp why))) = signals (store st)"
  by (simp add: execute_exit_def Let_def record_execution_signals split: sum.splits option.splits)

lemma mark_position_closed_signals:
  "mark_position_closed d now t px why = Inr (d', b) \<Longrightarrow> signals d' = signals d"
  by (auto simp: mark_position_closed_def Let_def split: list.splits if_splits)

lemma close_if_filled_signals:
  "signals (store (snd (close_if_filled now pos why answer))) = signals (store (snd answer))"
  by (cases answer)
     (auto simp: close_if_filled_def split: exec_result.splits sum.splits
        dest: mark_position_closed_signals)

lemma exit_loop_signals:
  assumes "\<And>p s. signals (store (snd (step p s))) = signals (store s)"
  shows "signals (store (snd (exit_loop step ps st acc))) = signals (store st)"
proof (induction ps arbitrary: st acc)
  case Nil
  show ?case by simp
next
  case (Cons p ps)
  obtain r st' where s: "step p st = (r, st')" by (cases "step p st")
  from assms [of p st] s have eq: "signals (store st') = signals (store st)" by simp
  show ?case
    using s eq Cons.IH by (simp split: sum.splits option.splits)
qed

lemma strategy_exit_step_signals:
  "signals (store (snd (strategy_exit_step w now p s))) = signals (store s)"
  by (simp add: strategy_exit_step_def close_if_filled_signals execute_exit_signals)

lemma check_strategy_exits_signals:
  "signals (store (snd (check_strategy_exits w now st))) = signals (store st)"
  unfolding check_strategy_exits_def
  by (rule exit_loop_signals) (rule strategy_exit_step_signals)

text \<open>
  Claim C3 fails on the code, against the code's own documentation (``After a stop loss,
  symbol enters cooldown for that strategy''). The position of (ACME, RSI), opened from the
  EXECUTED signal of the pair, has been marked by \<open>signal_exit\<close> with the exit signal
  STOP_LOSS. \<open>check_strategy_exits\<close> sells it at the market (the reason STOP_LOSS selects
  the market branch of \<open>execute_exit\<close>), the broker fills at 9.75, the position is archived
  with the reason STOP_LOSS and deleted. The signals are as they were and the pair is on no
  cooldown, where a call of \<open>set_cooldown\<close> with this reason would have locked the pair for
  60 minutes, until second 3610.
\<close>

theorem stop_loss_exit_sets_no_cooldown:
  "fst (check_strategy_exits filling_world 10 closing_state) =
     Inr [\<lparr> ev_ticket_id = ''TKT-0A1B2C3D'', ev_ticker = ''ACME'', ev_exit_price = 9.75,
            ev_reason = ''STOP_LOSS'' \<rparr>] \<and>
   positions (store (snd (check_strategy_exits filling_world 10 closing_state))) = [] \<and>
   map (\<lambda>t. (t_ticker t, t_strategy t, exit_reason t, t_ticket_id t))
       (trade_history (store (snd (check_strategy_exits filling_world 10 closing_state))))
     = [(''ACME'', ''RSI'', ''STOP_LOSS'', ''TKT-0A1B2C3D'')] \<and>
   signals (store (snd (check_strategy_exits filling_world 10 closing_state))) =
     [acme_signal EXECUTED] \<and>
   is_on_cooldown (store (snd (check_strategy_exits filling_world 10 closing_state))) 10
     ''ACME'' ''RSI'' = None \<and>
   is_on_cooldown
     (set_cooldown (store (snd (check_strategy_exits filling_world 10 closing_state))) 10
        ''2024010214'' ''1704204010.0'' ''ACME'' ''RSI'' ''STOP_LOSS'' None) 10
     ''ACME'' ''RSI'' = Some 3610"
  by code_simp

section \<open>Reconciliation\<close>

lemma classify_local_ids:
  "classify_local alpaca ls res = Inr res' \<Longrightarrow>
   distinct (map pm_local_id (mismatch_price res) @ map ticket_id ls) \<Longrightarrow>
   distinct (map pm_local_id (mismatch_price res'))"
proof (induction ls arbitrary: res)
  case Nil
  then show ?case by simp
next
  case (Cons l ls)
  show ?case
  proof (cases "map_of alpaca (p_ticker l)")
    case None
    with Cons.prems Cons.IH [of "res\<lparr>missing_in_alpaca := missing_in_alpaca res @ [l]\<rparr>"]
    show ?thesis by simp
  next
    case (Some a)
    with Cons.prems show ?thesis
      by (auto simp: Let_def split: if_splits intro!: Cons.IH)
  qed
qed

lemma update_entry_price_ids:
  "map ticket_id (update_entry_price ps t px) = map ticket_id ps"
  by (induction ps) (simp_all add: update_entry_price_def)

lemma fold_update_ids:
  "map ticket_id (fold (\<lambda>item ps. update_entry_price ps (pm_local_id item) (pm_alpaca_price item))
      items ps) = map ticket_id ps"
  by (induction items arbitrary: ps) (simp_all add: update_entry_price_ids)

lemma fold_update_other:
  "tid \<notin> pm_local_id ` set items \<Longrightarrow>
   \<forall>p\<in>set ps. ticket_id p = tid \<longrightarrow> entry_price p = a \<Longrightarrow>
   \<forall>p\<in>set (fold (\<lambda>item ps. update_entry_price ps (pm_local_id item) (pm_alpaca_price item))
      items ps). ticket_id p = tid \<longrightarrow> entry_price p = a"
proof (induction items arbitrary: ps)
  case Nil
  then show ?case by simp
next
  case (Cons i items)
  have "\<forall>p\<in>set (update_entry_price ps (pm_local_id i) (pm_alpaca_price i)).
          ticket_id p = tid \<longrightarrow> entry_price p = a"
    using Cons.prems by (auto simp: update_entry_price_def)
  with Cons.IH [of "update_entry_price ps (pm_local_id i) (pm_alpaca_price i)"] Cons.prems(1)
  show ?case by simp
qed

lemma fold_update_hit:
  "distinct (map pm_local_id items) \<Longrightarrow> item \<in> set items \<Longrightarrow>
   \<forall>p\<in>set (fold (\<lambda>item ps. update_entry_price ps (pm_local_id item) (pm_alpaca_price item))
      items ps). ticket_id p = pm_local_id item \<longrightarrow> entry_price p = pm_alpaca_price item"
proof (induction items arbitrary: ps)
  case Nil
  then show ?case by simp
next
  case (Cons i items)
  show ?case
  proof (cases "item = i")
    case True
    have "\<forall>p\<in>set (update_entry_price ps (pm_local_id i) (pm_alpaca_price i)).
            ticket_id p = pm_local_id i \<longrightarrow> entry_price p = pm_alpaca_price i"
      by (auto simp: update_entry_price_def)
    moreover from Cons.prems(1) have "pm_local_id i \<notin> pm_local_id ` set items" by simp
    ultimately show ?thesis
      using fold_update_other [of "pm_local_id i" items] True by simp
  next
    case False
    with Cons.prems have "item \<in> set items" "distinct (map pm_local_id items)" by simp_all
    with Cons.IH show ?thesis by simp
  qed
qed

lemma insert_position_Inr:
  "insert_position ps row = Inr ps' \<Longrightarrow>
   ps' = ps @ [row] \<and> ticket_id row \<notin> ticket_id ` set ps"
  by (auto simp: insert_position_def filter_empty_conv split: if_splits)

lemma insert_missing_Inr:
  "insert_missing now stamp items ps = Inr ps' \<Longrightarrow>
   set ps \<subseteq> set ps' \<and>
   (\<forall>item\<in>set items. reconciled_row now stamp item \<in> set ps' \<and>
      ticket_id (reconciled_row now stamp item) \<notin> ticket_id ` set ps)"
proof (induction items arbitrary: ps)
  case Nil
  then show ?case by simp
next
  case (Cons i items)
  from Cons.prems obtain ps1 where
    one: "insert_position ps (reconciled_row now stamp i) = Inr ps1"
    and rest: "insert_missing now stamp items ps1 = Inr ps'"
    by (auto split: sum.splits)
  from insert_position_Inr [OF one] have ps1: "ps1 = ps @ [reconciled_row now stamp i]"
    and new: "ticket_id (reconciled_row now stamp i) \<notin> ticket_id ` set ps" by simp_all
  from Cons.IH [OF rest] have sub: "set ps1 \<subseteq> set ps'"
    and items: "\<forall>item\<in>set items. reconciled_row now stamp item \<in> set ps' \<and>
      ticket_id (reconciled_row now stamp item) \<notin> ticket_id ` set ps1" by simp_all
  from sub ps1 have "set ps \<subseteq> set ps'" "reconciled_row now stamp i \<in> set ps'" by auto
  moreover from items ps1 have "\<forall>item\<in>set items. reconciled_row now stamp item \<in> set ps' \<and>
      ticket_id (reconciled_row now stamp item) \<notin> ticket_id ` set ps" by auto
  ultimately show ?case using new by simp
qed

lemma classify_mismatch_price_distinct:
  assumes "classify w d = Inr res" "distinct (map ticket_id (positions d))"
  shows "distinct (map pm_local_id (mismatch_price res))"
proof -
  from assms(1) obtain res0 where
    c: "classify_local (get_alpaca_positions w) (get_local_positions d) no_results = Inr res0"
    and r: "mismatch_price res = mismatch_price res0"
    by (auto simp: classify_def split: sum.splits)
  from assms(2) have "distinct (map ticket_id (get_local_positions d))"
    by (simp add: get_local_positions_def distinct_map_filter)
  then have "distinct (map pm_local_id (mismatch_price no_results) @
                       map ticket_id (get_local_positions d))"
    by (simp add: no_results_def)
  from classify_local_ids [OF c this] r show ?thesis by simp
qed

text \<open>
  Claim C4, as stated, fails: the local ledger holds ACME, the broker holds ZETA only. No
  quantity differs and a broker position is missing locally, yet the run is CRITICAL,
  because ACME is missing at the broker, and nothing is inserted for ZETA.
\<close>

theorem reconcile_all_counterexample:
  "reconcile_all (broker_holding [zeta_at_broker]) acme_local 50 ''20240102143000'' =
     Inr ((R_CRITICAL, Local_not_in_alpaca 1,
           \<lparr> matched = [], mismatch_price = [], mismatch_quantity = [],
             missing_in_alpaca = [acme_open],
             missing_in_local = [\<lparr> ml_ticker = ''ZETA'', ml_alpaca_qty = 5,
                                   ml_alpaca_price = 20 \<rparr>] \<rparr>),
          log_reconciliation acme_local 50 R_CRITICAL) \<and>
   positions (log_reconciliation acme_local 50 R_CRITICAL) = [acme_open]"
  by (simp add: reconcile_all_def classify_def get_alpaca_positions_def get_local_positions_def
      broker_holding_def quiet_world_def zeta_at_broker_def acme_local_def acme_open_def
      empty_db_def no_results_def missing_locally_def determine_status_def
      log_reconciliation_def)

text \<open>
  Claim C4, amended: in a run of \<open>reconcile_all\<close> that returns, if any ticker has a
  quantity mismatch, or any local position is missing at the broker, the status is CRITICAL
  and no Position row is inserted or updated. Otherwise, if some broker position is missing
  locally, the status is WARNING and for each of them a Position row is inserted with the
  broker's quantity and price, status OPEN, strategy RECONCILED and the ticket id
  RCL-ticker-timestamp, which no row carried before. Otherwise, if some price differs beyond
  the 2 per cent tolerance, the status is DEGRADED and the entry price of each such local
  row is overwritten with the broker's. (The primary key makes ticket ids distinct.)
\<close>

theorem reconcile_all_ladder:
  assumes run: "reconcile_all w d now stamp = Inr ((status, message, res), d')"
      and pk: "distinct (map ticket_id (positions d))"
  shows "(mismatch_quantity res \<noteq> [] \<or> missing_in_alpaca res \<noteq> [] \<longrightarrow>
            status = R_CRITICAL \<and> positions d' = positions d) \<and>
         (mismatch_quantity res = [] \<and> missing_in_alpaca res = [] \<and> missing_in_local res \<noteq> [] \<longrightarrow>
            status = R_WARNING \<and>
            (\<forall>item\<in>set (missing_in_local res).
               reconciled_row now stamp item \<in> set (positions d') \<and>
               ticket_id (reconciled_row now stamp item) \<notin> ticket_id ` set (positions d))) \<and>
         (mismatch_quantity res = [] \<and> missing_in_alpaca res = [] \<and> missing_in_local res = [] \<and>
          mismatch_price res \<noteq> [] \<longrightarrow>
            status = R_DEGRADED \<and>
            map ticket_id (positions d') = map ticket_id (positions d) \<and>
            (\<forall>item\<in>set (mismatch_price res). \<forall>p\<in>set (positions d').
               ticket_id p = pm_local_id item \<longrightarrow> entry_price p = pm_alpaca_price item))"
proof -
  let ?upd = "\<lambda>item ps. update_entry_price ps (pm_local_id item) (pm_alpaca_price item)"
  let ?priced = "fold ?upd (mismatch_price res) (positions d)"
  from run have cl: "classify w d = Inr res"
    by (auto simp: reconcile_all_def split: sum.splits prod.splits)
  from run cl have st: "determine_status res = (status, message)"
    by (auto simp: reconcile_all_def split: sum.splits prod.splits)
  from run cl st obtain d1 where
    d1: "(if status = R_WARNING \<or> status = R_DEGRADED then auto_reconcile d now stamp res
          else Inr d) = Inr d1"
    and d': "d' = log_reconciliation d1 now status"
    by (auto simp: reconcile_all_def split: sum.splits)
  have pos: "positions d' = positions d1"
    by (simp add: d' log_reconciliation_def)
  have crit: "status = R_CRITICAL \<and> positions d' = positions d"
    if "mismatch_quantity res \<noteq> [] \<or> missing_in_alpaca res \<noteq> []"
  proof -
    from that st have s: "status = R_CRITICAL"
      by (auto simp: determine_status_def split: if_splits)
    with d1 have "d1 = d" by simp
    with s pos show ?thesis by simp
  qed
  have warn: "status = R_WARNING \<and>
            (\<forall>item\<in>set (missing_in_local res).
               reconciled_row now stamp item \<in> set (positions d') \<and>
               ticket_id (reconciled_row now stamp item) \<notin> ticket_id ` set (positions d))"
    if "mismatch_quantity res = [] \<and> missing_in_alpaca res = [] \<and> missing_in_local res \<noteq> []"
  proof -
    from that st have s: "status = R_WARNING"
      by (auto simp: determine_status_def split: if_splits)
    with d1 have "auto_reconcile d now stamp res = Inr d1" by simp
    then obtain ps where ins: "insert_missing now stamp (missing_in_local res) ?priced = Inr ps"
      and "d1 = d\<lparr>positions := ps\<rparr>"
      by (auto simp: auto_reconcile_def Let_def split: sum.splits)
    with pos have p: "positions d' = ps" by simp
    have ids: "ticket_id ` set ?priced = ticket_id ` set (positions d)"
      using fold_update_ids [of "mismatch_price res" "positions d"]
      by (metis set_map)
    from insert_missing_Inr [OF ins] s p ids show ?thesis by simp
  qed
  have degr: "status = R_DEGRADED \<and>
            map ticket_id (positions d') = map ticket_id (positions d) \<and>
            (\<forall>item\<in>set (mismatch_price res). \<forall>p\<in>set (positions d').
               ticket_id p = pm_local_id item \<longrightarrow> entry_price p = pm_alpaca_price item)"
    if "mismatch_quantity res = [] \<and> missing_in_alpaca res = [] \<and> missing_in_local res = [] \<and>
          mismatch_price res \<noteq> []"
  proof -
    from that st have s: "status = R_DEGRADED"
      by (auto simp: determine_status_def split: if_splits)
    with d1 have "auto_reconcile d now stamp res = Inr d1" by simp
    with that have "d1 = d\<lparr>positions := ?priced\<rparr>"
      by (auto simp: auto_reconcile_def Let_def)
    with pos have p: "positions d' = ?priced" by simp
    from classify_mismatch_price_distinct [OF cl pk]
    have dist: "distinct (map pm_local_id (mismatch_price res))" .
    have "\<forall>item\<in>set (mismatch_price res). \<forall>p\<in>set ?priced.
               ticket_id p = pm_local_id item \<longrightarrow> entry_price p = pm_alpaca_price item"
      using fold_update_hit [OF dist] by blast
    with s p fold_update_ids [of "mismatch_price res" "positions d"] show ?thesis by simp
  qed
  from crit warn degr show ?thesis by blast
qed

theorem reconcile_all_ladder_witness:
  "reconciled_row 50 ''20240102143000''
      \<lparr> ml_ticker = ''ZETA'', ml_alpaca_qty = 5, ml_alpaca_price = 20 \<rparr>
     \<in> set (positions (acme_local\<lparr>positions :=
              [acme_open, reconciled_row 50 ''20240102143000''
                 \<lparr> ml_ticker = ''ZETA'', ml_alpaca_qty = 5, ml_alpaca_price = 20 \<rparr>]\<rparr>)) \<and>
   ''RCL-ZETA-20240102143000'' \<notin> ticket_id ` set (positions acme_local) \<and>
   distinct (map ticket_id (positions acme_local)) \<and>
   fst (fst (projr (reconcile_all (broker_holding [acme_at_broker 11]) acme_local 50
     ''20240102143000''))) = R_DEGRADED \<and>
   map entry_price (positions (snd (projr (reconcile_all (broker_holding [acme_at_broker 11])
     acme_local 50 ''20240102143000'')))) = [11] \<and>
   fst (fst (projr (reconcile_all (broker_holding [(acme_at_broker 11)\<lparr>a_qty := 10\<rparr>])
     acme_local 50 ''20240102143000''))) = R_CRITICAL \<and>
   positions (snd (projr (reconcile_all (broker_holding [(acme_at_broker 11)\<lparr>a_qty := 10\<rparr>])
     acme_local 50 ''20240102143000''))) = positions acme_local"
proof -
  let ?item = "\<lparr> ml_ticker = ''ZETA'', ml_alpaca_qty = 5, ml_alpaca_price = 20 \<rparr>"
  let ?res = "\<lparr> matched = [''ACME''], mismatch_price = [], mismatch_quantity = [],
                missing_in_alpaca = [], missing_in_local = [?item] \<rparr>"
  let ?d' = "log_reconciliation
               (acme_local\<lparr>positions := [acme_open, reconciled_row 50 ''20240102143000'' ?item]\<rparr>)
               50 R_WARNING"
  note defs = reconcile_all_def classify_def get_alpaca_positions_def
        get_local_positions_def broker_holding_def quiet_world_def zeta_at_broker_def
        acme_at_broker_def acme_local_def acme_open_def empty_db_def no_results_def
        missing_locally_def determine_status_def log_reconciliation_def auto_reconcile_def
        insert_position_def reconciled_row_def is_active_def quantity_tolerance_def
        price_tolerance_pct_def update_entry_price_def
  have pk: "distinct (map ticket_id (positions acme_local))"
    by (simp add: acme_local_def empty_db_def)
  have run: "reconcile_all (broker_holding [zeta_at_broker, acme_at_broker 10.25]) acme_local 50
               ''20240102143000'' = Inr ((R_WARNING, Alpaca_not_in_local 1, ?res), ?d')"
    by (simp add: defs)
  from reconcile_all_ladder [OF run pk]
  have w1: "reconciled_row 50 ''20240102143000'' ?item \<in> set (positions ?d')"
    and w2: "ticket_id (reconciled_row 50 ''20240102143000'' ?item)
           \<notin> ticket_id ` set (positions acme_local)"
    by simp_all
  let ?pm = "\<lparr> pm_ticker = ''ACME'', pm_local_price = 10.21, pm_alpaca_price = 11,
               pm_diff_pct = 7900 / 1021, pm_local_id = ''TKT-0A1B2C3D'' \<rparr>"
  let ?resd = "\<lparr> matched = [], mismatch_price = [?pm], mismatch_quantity = [],
                 missing_in_alpaca = [], missing_in_local = [] \<rparr>"
  let ?dd = "log_reconciliation (acme_local\<lparr>positions := [acme_open\<lparr>entry_price := 11\<rparr>]\<rparr>)
               50 R_DEGRADED"
  have rund: "reconcile_all (broker_holding [acme_at_broker 11]) acme_local 50
                ''20240102143000'' = Inr ((R_DEGRADED, Price_mismatch 1, ?resd), ?dd)"
    by (simp add: defs)
  from reconcile_all_ladder [OF rund pk]
  have "\<forall>item\<in>set (mismatch_price ?resd). \<forall>p\<in>set (positions ?dd).
          ticket_id p = pm_local_id item \<longrightarrow> entry_price p = pm_alpaca_price item"
    by simp
  then have d2: "map entry_price (positions ?dd) = [11]"
    by (simp add: log_reconciliation_def acme_open_def)
  let ?qm = "\<lparr> qm_ticker = ''ACME'', qm_local_qty = 19, qm_alpaca_qty = 10,
               qm_local_id = ''TKT-0A1B2C3D'' \<rparr>"
  let ?resc = "\<lparr> matched = [], mismatch_price = [], mismatch_quantity = [?qm],
                 missing_in_alpaca = [], missing_in_local = [] \<rparr>"
  let ?dc = "log_reconciliation acme_local 50 R_CRITICAL"
  have runc: "reconcile_all (broker_holding [(acme_at_broker 11)\<lparr>a_qty := 10\<rparr>]) acme_local 50
                ''20240102143000'' = Inr ((R_CRITICAL, Quantity_mismatch 1, ?resc), ?dc)"
    by (simp add: defs)
  from reconcile_all_ladder [OF runc pk]
  have c2: "positions ?dc = positions acme_local"
    by simp
  from w1 w2 pk d2 c2 show ?thesis
    unfolding rund runc by (simp add: log_reconciliation_def reconciled_row_def)
qed

section \<open>Pending orders in the cycle\<close>

lemma poll_order_pending:
  "pending_orders (exec (fst (poll_order w now (oid, info) (st, acc)))) =
   filter (\<lambda>(k, v). \<not> (k = oid \<and> broker_done w k)) (pending_orders (exec st))"
proof (cases "broker_done w oid")
  case True
  have "filter (\<lambda>(k, v). \<not> (k = oid \<and> broker_done w k)) (pending_orders (exec st)) =
        filter (\<lambda>(k, v). oid \<noteq> k) (pending_orders (exec st))"
    using True by (intro filter_cong) auto
  with True show ?thesis
    by (auto simp: poll_order_def broker_done_def AList.delete_eq split: sum.splits option.splits)
next
  case False
  have "filter (\<lambda>(k, v). \<not> (k = oid \<and> broker_done w k)) (pending_orders (exec st)) =
        pending_orders (exec st)"
    using False by (auto simp: filter_id_conv)
  with False show ?thesis
    by (auto simp: poll_order_def broker_done_def split: sum.splits option.splits)
qed

lemma fold_poll_order_pending:
  "pending_orders (exec (fst (fold (poll_order w now) xs (st, acc)))) =
   filter (\<lambda>(k, v). \<not> (k \<in> fst ` set xs \<and> broker_done w k)) (pending_orders (exec st))"
proof (induction xs arbitrary: st acc)
  case Nil
  then show ?case by simp
next
  case (Cons x xs)
  obtain oid info where x: "x = (oid, info)" by (cases x)
  obtain st1 acc1 where p: "poll_order w now (oid, info) (st, acc) = (st1, acc1)"
    by (cases "poll_order w now (oid, info) (st, acc)")
  from poll_order_pending [of w now oid info st acc] p
  have one: "pending_orders (exec st1) =
     filter (\<lambda>(k, v). \<not> (k = oid \<and> broker_done w k)) (pending_orders (exec st))" by simp
  have "pending_orders (exec (fst (fold (poll_order w now) (x # xs) (st, acc)))) =
        pending_orders (exec (fst (fold (poll_order w now) xs (st1, acc1))))"
    by (simp add: x p)
  also have "\<dots> = filter (\<lambda>(k, v). \<not> (k \<in> fst ` set xs \<and> broker_done w k))
                     (pending_orders (exec st1))"
    by (rule Cons.IH)
  also have "\<dots> = filter (\<lambda>(k, v). \<not> (k \<in> fst ` set (x # xs) \<and> broker_done w k))
                     (pending_orders (exec st))"
    unfolding one by (auto simp: x intro!: filter_cong)
  finally show ?case .
qed

lemma check_pending_orders_drops:
  "pending_orders (exec (snd (check_pending_orders w now st))) =
   filter (\<lambda>(k, v). \<not> broker_done w k) (pending_orders (exec st))"
proof (cases "pending_orders (exec st) = []")
  case True
  then show ?thesis by (simp add: check_pending_orders_def)
next
  case False
  have "pending_orders (exec (snd (check_pending_orders w now st))) =
        pending_orders (exec (fst (fold (poll_order w now) (pending_orders (exec st)) (st, []))))"
    using False by (simp add: check_pending_orders_def split: prod.splits)
  also have "\<dots> = filter (\<lambda>(k, v). \<not> (k \<in> fst ` set (pending_orders (exec st)) \<and> broker_done w k))
                     (pending_orders (exec st))"
    by (rule fold_poll_order_pending)
  also have "\<dots> = filter (\<lambda>(k, v). \<not> broker_done w k) (pending_orders (exec st))"
    by (intro filter_cong) (auto simp: rev_image_eqI)
  finally show ?thesis .
qed


end
